theory Spec2Isabelle
  imports Main
begin

section \<open>Data model\<close>

text \<open>
  The plugin class \<open>ObsidianGit\<close> of \<open>src/main.ts\<close> coordinates a version-control backend
  (\<open>this.gitManager\<close>), the host's vault and workspace (\<open>this.app\<close>), a status bar and
  pop-up notices. The class is embedded as a record of its fields, its methods as actions
  that take the record and return an outcome, the effects they issued and the updated
  record. The collaborators whose code is outside \<open>main.ts\<close> are parameters of the model.
\<close>

text \<open>
  Modelled from the spec: the enumeration \<open>PluginState\<close> is declared in \<open>./types\<close>, which
  is not part of the sources at hand. The spec lists the coordinator states
  \<open>idle | pulling | committing | pushing | conflicted\<close>; \<open>main.ts\<close> itself only ever
  writes \<open>PluginState.idle\<close> and \<open>PluginState.conflicted\<close>.
\<close>

datatype PluginState =
    PluginState_idle
  | PluginState_pulling
  | PluginState_committing
  | PluginState_pushing
  | PluginState_conflicted

text \<open>The settings object, with the fields of \<open>DEFAULT_SETTINGS\<close> (lines 12-24).\<close>

record ObsidianGitSettings =
  commitMessage :: string
  commitDateFormat :: string
  autoSaveInterval :: int
  autoPullInterval :: int
  autoPullOnBoot :: bool
  disablePush :: bool
  pullBeforePush :: bool
  disablePopups :: bool
  listChangedFilesInMessageBody :: bool
  standaloneMode :: bool
  proxyURL :: string

definition DEFAULT_SETTINGS :: ObsidianGitSettings where
  "DEFAULT_SETTINGS =
     \<lparr> commitMessage = ''vault backup: {{date}}'',
       commitDateFormat = ''YYYY-MM-DD HH:mm:ss'',
       autoSaveInterval = 0,
       autoPullInterval = 0,
       autoPullOnBoot = False,
       disablePush = False,
       pullBeforePush = True,
       disablePopups = False,
       listChangedFilesInMessageBody = False,
       standaloneMode = False,
       proxyURL = [] \<rparr>"

text \<open>
  Modelled from the spec: the result types of the backend interface are declared in
  \<open>./gitManager\<close> and \<open>./types\<close>, outside the sources at hand. Following the spec,
  a repository status carries the ordered sequences \<open>changed\<close> and \<open>conflicted\<close> of paths and
  a branch info carries \<open>current\<close> and an optional \<open>remote\<close>; \<open>main.ts\<close> reads only the lengths
  of the two sequences, the conflicted paths and the truthiness of \<open>remote\<close>.
\<close>

record Status =
  changed :: "string list"
  conflicted :: "string list"

record BranchInfo =
  current :: string
  remote :: "string option"

text \<open>The two backend classes that \<open>init\<close> instantiates (lines 103-107).\<close>

datatype GitManager = SimpleGit | IsomorphicGit

text \<open>
  What \<open>getAbstractFileByPath\<close> hands back: a file, a folder, or \<open>null\<close> (\<open>None\<close>) when
  nothing exists at the path. \<open>handleConflict\<close> tests the handle with \<open>instanceof TFile\<close>.
\<close>

datatype TAbstractFile = TFile string | TFolder string

text \<open>
  The closures that \<open>main.ts\<close> hands to the promise queue and to \<open>window.setInterval\<close>:
  \<open>() => this.pullChangesFromRemote()\<close> and \<open>() => this.createBackup(true)\<close>.
\<close>

datatype Task = PullTask | BackupTask bool

text \<open>
  A rejected promise of a collaborator, or the \<open>TypeError\<close> of a method call on an
  undefined \<open>gitManager\<close>. \<open>main.ts\<close> has no \<open>try\<close>/\<open>catch\<close>: a rejection of an awaited
  call ends the running method, which rejects in turn.
\<close>

datatype error = Rejected string | TypeError string

text \<open>
  The effects a method issues, in order. A call to a collaborator that is awaited is
  recorded together with its outcome.
\<close>

datatype event =
    Notice string
  | ConsoleLog string
  | StatusBarMessage string int
  | StatusBarDisplay
  | SetState PluginState
  | GitCheckRequirements "error + string"
  | GitStatus "error + Status"
  | GitPull "error + int"
  | GitPush "error + int"
  | GitCommitAll "string option" "error + int"
  | GitBranchInfo "error + BranchInfo"
  | GitCanPush "error + bool"
  | VaultDelete "TAbstractFile option" "error + unit"
  | AdapterWrite string string "error + unit"
  | OpenLinkText string string bool
  | SetInterval Task int nat
  | RegisterInterval nat
  | AddTask Task

text \<open>
  The collaborators, over an abstract world \<open>'w\<close> (the repository, the vault, the open
  views, the timers of the window). Each backend method takes the backend class that
  receives the call. \<open>vaultDelete\<close> receives whatever \<open>getAbstractFileByPath\<close> returned,
  \<open>null\<close> included, since line 169 passes it on unchecked. \<open>unsafeIntegerToString\<close> is what
  the language runtime prints for an integer outside the safe range (see \<open>showInt\<close>).
\<close>

record 'w Env =
  checkRequirements :: "GitManager \<Rightarrow> 'w \<Rightarrow> (error + string) \<times> 'w"
  status :: "GitManager \<Rightarrow> 'w \<Rightarrow> (error + Status) \<times> 'w"
  pull :: "GitManager \<Rightarrow> 'w \<Rightarrow> (error + int) \<times> 'w"
  push :: "GitManager \<Rightarrow> 'w \<Rightarrow> (error + int) \<times> 'w"
  commitAll :: "string option \<Rightarrow> GitManager \<Rightarrow> 'w \<Rightarrow> (error + int) \<times> 'w"
  branchInfo :: "GitManager \<Rightarrow> 'w \<Rightarrow> (error + BranchInfo) \<times> 'w"
  canPush :: "GitManager \<Rightarrow> 'w \<Rightarrow> (error + bool) \<times> 'w"
  getAbstractFileByPath :: "string \<Rightarrow> 'w \<Rightarrow> TAbstractFile option"
  vaultDelete :: "TAbstractFile option \<Rightarrow> 'w \<Rightarrow> (error + unit) \<times> 'w"
  fileToLinktext :: "TAbstractFile \<Rightarrow> string \<Rightarrow> 'w \<Rightarrow> string"
  adapterWrite :: "string \<Rightarrow> string \<Rightarrow> 'w \<Rightarrow> (error + unit) \<times> 'w"
  leafDisplayTexts :: "'w \<Rightarrow> string list"
  setInterval :: "'w \<Rightarrow> nat \<times> 'w"
  unsafeIntegerToString :: "int \<Rightarrow> string"

text \<open>
  The fields of the class (lines 27-36). \<open>gitManager\<close>, \<open>state\<close> and the two interval ids
  are undefined (\<open>None\<close>) until first assigned. \<open>isMobile\<close> is \<open>this.app.isMobile\<close>.
  \<open>onload\<close> (lines 80-87) creates the status bar exactly when the app is not mobile, so
  \<open>this.statusBar\<close> is defined if and only if \<open>isMobile\<close> is false. \<open>promiseQueue\<close> is
  the sequence of tasks handed to the queue and not yet run; \<open>world\<close> is the state of the
  collaborators.
\<close>

record 'w ObsidianGit =
  settings :: ObsidianGitSettings
  isMobile :: bool
  gitManager :: "GitManager option"
  state :: "PluginState option"
  intervalIDBackup :: "nat option"
  intervalIDPull :: "nat option"
  gitReady :: bool
  promiseQueue :: "Task list"
  world :: 'w

definition conflictOutputFile :: string where
  "conflictOutputFile = ''conflict-files-obsidian-git.md''"

section \<open>Actions\<close>

text \<open>
  An action is the body of an \<open>async\<close> method: it resolves (\<open>Inr\<close>) or rejects (\<open>Inl\<close>),
  lists the effects it issued, and returns the updated plugin.
\<close>

type_synonym ('a, 'w) action = "'w ObsidianGit \<Rightarrow> (error + 'a) \<times> event list \<times> 'w ObsidianGit"

definition returnA :: "'a \<Rightarrow> ('a, 'w) action" where
  "returnA x = (\<lambda>p. (Inr x, [], p))"

definition bindA :: "('a, 'w) action \<Rightarrow> ('a \<Rightarrow> ('b, 'w) action) \<Rightarrow> ('b, 'w) action" where
  "bindA m f =
     (\<lambda>p. case m p of
        (Inl e, evs, p') \<Rightarrow> (Inl e, evs, p')
      | (Inr a, evs, p') \<Rightarrow> (case f a p' of (r, evs', p'') \<Rightarrow> (r, evs @ evs', p'')))"

definition thenA :: "(unit, 'w) action \<Rightarrow> ('b, 'w) action \<Rightarrow> ('b, 'w) action" where
  "thenA m n = bindA m (\<lambda>_. n)"

definition ifA :: "('w ObsidianGit \<Rightarrow> bool) \<Rightarrow> ('a, 'w) action \<Rightarrow> ('a, 'w) action \<Rightarrow> ('a, 'w) action" where
  "ifA c m n = (\<lambda>p. if c p then m p else n p)"

definition emit :: "event list \<Rightarrow> (unit, 'w) action" where
  "emit evs = (\<lambda>p. (Inr (), evs, p))"

text \<open>
  A call of an \<open>async\<close> method whose promise is dropped (no \<open>await\<close>): its effects happen,
  its rejection reaches nobody.
\<close>

definition detached :: "(unit, 'w) action \<Rightarrow> (unit, 'w) action" where
  "detached m = (\<lambda>p. case m p of (r, evs, p') \<Rightarrow> (Inr (), evs, p'))"

text \<open>
  An awaited call \<open>await this.gitManager.f(...)\<close>. The call goes to the backend that
  \<open>gitManager\<close> holds; with \<open>gitManager\<close> undefined the property access throws.
\<close>

definition gitCall ::
  "(GitManager \<Rightarrow> 'w \<Rightarrow> (error + 'a) \<times> 'w) \<Rightarrow> ((error + 'a) \<Rightarrow> event) \<Rightarrow> ('a, 'w) action" where
  "gitCall f ev =
     (\<lambda>p. case gitManager p of
        None \<Rightarrow> (Inl (TypeError ''gitManager is undefined''), [], p)
      | Some g \<Rightarrow> (case f g (world p) of (r, w) \<Rightarrow> (r, [ev r], p\<lparr>world := w\<rparr>)))"

section \<open>Rendering of messages\<close>

definition digitChar :: "nat \<Rightarrow> char" where
  "digitChar d =
     (if d = 0 then CHR ''0'' else if d = 1 then CHR ''1'' else if d = 2 then CHR ''2''
      else if d = 3 then CHR ''3'' else if d = 4 then CHR ''4'' else if d = 5 then CHR ''5''
      else if d = 6 then CHR ''6'' else if d = 7 then CHR ''7'' else if d = 8 then CHR ''8''
      else CHR ''9'')"

text \<open>
  The decimal rendering of a natural number: the length of an array inside a template
  literal (an array has fewer than \<open>2^32\<close> elements).
\<close>

fun showNat :: "nat \<Rightarrow> string" where
  "showNat n = (if n < 10 then [digitChar n] else showNat (n div 10) @ [digitChar (n mod 10)])"

declare showNat.simps [simp del]

text \<open>
  A file count inside a template literal. The backends return counts, that is integers.
  An integer of magnitude below \<open>2^53\<close> (the safe range of a JavaScript number) prints as
  its decimal digits. Beyond that range a number prints as the shortest digits that read
  back as the same double, padded with zeros or in exponent notation; that rendering is
  the runtime's and is taken from the environment.
\<close>

definition showInt :: "'w Env \<Rightarrow> int \<Rightarrow> string" where
  "showInt env i =
     (if - (2 ^ 53) < i \<and> i < 2 ^ 53
      then (if i < 0 then CHR ''-'' # showNat (nat (- i)) else showNat (nat i))
      else unsafeIntegerToString env i)"

text \<open>
  \<open>String.prototype.toLowerCase\<close> on the ASCII letters; every message \<open>main.ts\<close> displays
  is an ASCII literal with decimal numbers filled in.
\<close>

definition lowerChar :: "char \<Rightarrow> char" where
  "lowerChar c =
     (case map_of (zip ''ABCDEFGHIJKLMNOPQRSTUVWXYZ'' ''abcdefghijklmnopqrstuvwxyz'') c of
        Some d \<Rightarrow> d
      | None \<Rightarrow> c)"

definition toLowerCase :: "string \<Rightarrow> string" where
  "toLowerCase s = map lowerChar s"

text \<open>\<open>Array.prototype.join\<close>.\<close>

fun join :: "string \<Rightarrow> string list \<Rightarrow> string" where
  "join sep [] = []"
| "join sep [x] = x"
| "join sep (x # y # ys) = x @ sep @ join sep (y # ys)"

text \<open>\<open>s.startsWith(d)\<close>.\<close>

definition startsWith :: "string \<Rightarrow> string \<Rightarrow> bool" where
  "startsWith s d = (take (length d) s = d)"

text \<open>JavaScript truthiness of an optional string: \<open>undefined\<close> and \<open>""\<close> are falsy.\<close>

definition truthy :: "string option \<Rightarrow> bool" where
  "truthy r = (case r of None \<Rightarrow> False | Some s \<Rightarrow> s \<noteq> [])"

section \<open>The methods of the plugin\<close>

text \<open>
  \<open>setState\<close> (lines 38-41). The assignment is listed among the effects, so that the events
  of a run show every state the coordinator went through.
\<close>

definition setState :: "PluginState \<Rightarrow> (unit, 'w) action" where
  "setState s =
     (\<lambda>p. (Inr (), SetState s # (if \<not> isMobile p then [StatusBarDisplay] else []),
            p\<lparr>state := Some s\<rparr>))"

text \<open>\<open>displayMessage\<close> (lines 291-301); the default timeout is \<open>4 * 1000\<close>.\<close>

definition displayMessage :: "'w ObsidianGit \<Rightarrow> string \<Rightarrow> int \<Rightarrow> event list" where
  "displayMessage p message timeout =
     (if \<not> isMobile p then [StatusBarMessage (toLowerCase message) timeout] else [])
     @ (if \<not> disablePopups (settings p) then [Notice message] else [])
     @ [ConsoleLog (''git obsidian message: '' @ message)]"

text \<open>\<open>displayError\<close> (lines 302-308); the default timeout is \<open>0\<close>.\<close>

definition displayError :: "'w ObsidianGit \<Rightarrow> string \<Rightarrow> int \<Rightarrow> event list" where
  "displayError p message timeout =
     [Notice message, ConsoleLog (''git obsidian error: '' @ message)]
     @ (if \<not> isMobile p then [StatusBarMessage (toLowerCase message) timeout] else [])"

definition displayMessageA :: "string \<Rightarrow> int \<Rightarrow> (unit, 'w) action" where
  "displayMessageA message timeout = (\<lambda>p. (Inr (), displayMessage p message timeout, p))"

definition displayErrorA :: "string \<Rightarrow> int \<Rightarrow> (unit, 'w) action" where
  "displayErrorA message timeout = (\<lambda>p. (Inr (), displayError p message timeout, p))"

text \<open>
  Modelled from the spec: the class \<open>PromiseQueue\<close> is declared in \<open>./promiseQueue\<close>, which
  is not part of the sources at hand. Following the spec, the queue holds an ordered
  sequence of pending producers and \<open>addTask\<close> appends to it. When the queue runs a task is
  the queue's business; \<open>main.ts\<close> only hands tasks over, and that is what is modelled.
\<close>

definition addTask :: "Task \<Rightarrow> (unit, 'w) action" where
  "addTask t = (\<lambda>p. (Inr (), [AddTask t], p\<lparr>promiseQueue := promiseQueue p @ [t]\<rparr>))"

text \<open>\<open>enableAutoBackup\<close> (lines 225-232) and \<open>enableAutoPull\<close> (lines 234-241).\<close>

definition enableAutoBackup :: "'w Env \<Rightarrow> (unit, 'w) action" where
  "enableAutoBackup env =
     (\<lambda>p. let minutes = autoSaveInterval (settings p) in
           case setInterval env (world p) of
             (i, w) \<Rightarrow>
               (Inr (), [SetInterval (BackupTask True) (minutes * 60000) i, RegisterInterval i],
                p\<lparr>intervalIDBackup := Some i, world := w\<rparr>))"

definition enableAutoPull :: "'w Env \<Rightarrow> (unit, 'w) action" where
  "enableAutoPull env =
     (\<lambda>p. let minutes = autoPullInterval (settings p) in
           case setInterval env (world p) of
             (i, w) \<Rightarrow>
               (Inr (), [SetInterval PullTask (minutes * 60000) i, RegisterInterval i],
                p\<lparr>intervalIDPull := Some i, world := w\<rparr>))"

text \<open>
  The statements under \<open>case "valid":\<close> (lines 118-131). The \<open>case "wrong-settings":\<close> above
  it has no \<open>break\<close>, so control reaches these statements from there as well.
\<close>

definition init_valid :: "'w Env \<Rightarrow> (unit, 'w) action" where
  "init_valid env =
     thenA (\<lambda>p. (Inr (), [], p\<lparr>gitReady := True\<rparr>))
    (thenA (setState PluginState_idle)
    (thenA (ifA (\<lambda>p. autoPullOnBoot (settings p)) (addTask PullTask) (returnA ()))
    (thenA (ifA (\<lambda>p. autoSaveInterval (settings p) > 0) (enableAutoBackup env) (returnA ()))
           (ifA (\<lambda>p. autoPullInterval (settings p) > 0) (enableAutoPull env) (returnA ())))))"

text \<open>\<open>init\<close> (lines 102-135).\<close>

definition init :: "'w Env \<Rightarrow> (unit, 'w) action" where
  "init env =
     thenA (\<lambda>p. (Inr (), [],
                 p\<lparr>gitManager :=
                     Some (if standaloneMode (settings p) \<or> isMobile p
                           then IsomorphicGit else SimpleGit)\<rparr>))
    (bindA (gitCall (checkRequirements env) GitCheckRequirements) (\<lambda>result.
       if result = ''missing-git'' then
         displayErrorA ''Cannot run git command'' 0
       else if result = ''missing-repo'' then
         displayErrorA ''Valid git repository not found'' 0
       else if result = ''wrong-settings'' then
         thenA (displayErrorA ''Not all of the required standalone mode settings are set'' 0)
               (init_valid env)
       else if result = ''valid'' then
         init_valid env
       else
         emit [ConsoleLog
                 (''Something weird happened. The 'checkRequirements' result is '' @ result)]))"

text \<open>
  The opening of every workflow entry point:
  \<open>if (!this.gitReady) { await this.init(); }\<close> (lines 139-141, 162-164).
\<close>

definition ensureReady :: "'w Env \<Rightarrow> (unit, 'w) action" where
  "ensureReady env = ifA (\<lambda>p. \<not> gitReady p) (init env) (returnA ())"

text \<open>
  \<open>pullChangesFromRemote\<close> (lines 137-159). Its closing statements (lines 152-158), the
  conflict check on a \<open>SimpleGit\<close> backend and the return to \<open>idle\<close>, come first.
\<close>

definition pullChangesFromRemote_conflicts :: "'w Env \<Rightarrow> (unit, 'w) action" where
  "pullChangesFromRemote_conflicts env =
     thenA (ifA (\<lambda>p. gitManager p = Some SimpleGit)
              (bindA (gitCall (status env) GitStatus) (\<lambda>st.
                 if length (conflicted st) > 0 then
                   displayErrorA
                     (''You have '' @ showNat (length (conflicted st)) @ '' conflict files'') 0
                 else returnA ()))
              (returnA ()))
           (setState PluginState_idle)"

definition pullChangesFromRemote :: "'w Env \<Rightarrow> (unit, 'w) action" where
  "pullChangesFromRemote env =
     thenA (ensureReady env)
    (ifA (\<lambda>p. \<not> gitReady p) (returnA ())
    (bindA (gitCall (pull env) GitPull) (\<lambda>filesUpdated.
     thenA (if filesUpdated > 0 then
              displayMessageA
                (''Pulled new changes. '' @ showInt env filesUpdated @ '' files updated'') 4000
            else
              displayMessageA ''Everything is up-to-date'' 4000)
           (pullChangesFromRemote_conflicts env))))"

text \<open>
  One line of the conflict report (lines 264-272): a link when the path resolves to a
  file, a plain line otherwise.
\<close>

definition conflictLine :: "'w Env \<Rightarrow> 'w \<Rightarrow> string \<Rightarrow> string" where
  "conflictLine env w e =
     (case getAbstractFileByPath env e w of
        Some (TFile f) \<Rightarrow> ''- [['' @ fileToLinktext env (TFile f) ''/'' w @ '']]''
      | _ \<Rightarrow> ''- Not a file: '' @ e)"

definition conflictReport :: "'w Env \<Rightarrow> 'w \<Rightarrow> string list \<Rightarrow> string" where
  "conflictReport env w cs =
     join [CHR 0x0A]
       (''# Conflict files''
        # ''Please resolve them and commit per command (This file will be deleted before the commit).''
        # map (conflictLine env w) cs)"

text \<open>
  \<open>writeAndOpenFile\<close> (lines 277-289). The statements after the awaited write run once
  the write has resolved; they are sequenced here directly after it.
\<close>

definition writeAndOpenFile :: "'w Env \<Rightarrow> string \<Rightarrow> (unit, 'w) action" where
  "writeAndOpenFile env text =
     thenA (\<lambda>p. case adapterWrite env conflictOutputFile text (world p) of
                  (r, w) \<Rightarrow> (r, [AdapterWrite conflictOutputFile text r], p\<lparr>world := w\<rparr>))
           (\<lambda>p. let fileIsAlreadyOpened =
                       list_ex (\<lambda>d. d \<noteq> [] \<and> startsWith conflictOutputFile d)
                         (leafDisplayTexts env (world p))
                 in if \<not> fileIsAlreadyOpened
                    then (Inr (), [OpenLinkText conflictOutputFile ''/'' True], p)
                    else (Inr (), [], p))"

text \<open>
  \<open>handleConflict\<close> (lines 259-275). The promise of \<open>writeAndOpenFile\<close> is dropped; the
  callers drop the promise of \<open>handleConflict\<close> too, which has no \<open>await\<close> of its own and
  so never rejects.
\<close>

definition handleConflict :: "'w Env \<Rightarrow> string list \<Rightarrow> (unit, 'w) action" where
  "handleConflict env cs =
     thenA (setState PluginState_conflicted)
           (\<lambda>p. detached (writeAndOpenFile env (conflictReport env (world p) cs)) p)"

text \<open>
  \<open>createBackup\<close> (lines 161-224), in the three parts its blank lines separate. The first
  part (lines 162-181) makes the coordinator ready, clears a stale conflict report on a
  manual run and checks for conflicts; it yields \<open>False\<close> where the method returns early.
\<close>

definition clearConflictFile :: "'w Env \<Rightarrow> (unit, 'w) action" where
  "clearConflictFile env =
     (\<lambda>p. let file = getAbstractFileByPath env conflictOutputFile (world p) in
           case vaultDelete env file (world p) of
             (r, w) \<Rightarrow> (r, [VaultDelete file r], p\<lparr>world := w\<rparr>))"

definition createBackup_checks :: "'w Env \<Rightarrow> bool \<Rightarrow> (bool, 'w) action" where
  "createBackup_checks env fromAutoBackup =
     thenA (ensureReady env)
    (ifA (\<lambda>p. \<not> gitReady p) (returnA False)
    (thenA (if \<not> fromAutoBackup then clearConflictFile env else returnA ())
    (ifA (\<lambda>p. gitManager p = Some SimpleGit)
       (bindA (gitCall (status env) GitStatus) (\<lambda>st.
          if fromAutoBackup \<and> length (conflicted st) > 0 then
            thenA (setState PluginState_idle)
           (thenA (displayErrorA
                     (''Did not commit, because you have '' @ showNat (length (conflicted st))
                      @ '' conflict files. Please resolve them and commit per command.'') 0)
           (thenA (detached (handleConflict env (conflicted st)))
                  (returnA False)))
          else returnA True))
       (returnA True))))"

text \<open>The second part (lines 183-190): commit when there are changed files.\<close>

definition createBackup_commit :: "'w Env \<Rightarrow> string option \<Rightarrow> (unit, 'w) action" where
  "createBackup_commit env msg =
     bindA (gitCall (status env) GitStatus) (\<lambda>st.
       if length (changed st) \<noteq> 0 then
         bindA (gitCall (commitAll env msg) (GitCommitAll msg)) (\<lambda>commitedFiles.
           displayMessageA (''Committed '' @ showInt env commitedFiles @ '' files'') 4000)
       else
         displayMessageA ''No changes to commit'' 4000)"

text \<open>
  The third part (lines 192-223): the push block and the closing \<open>setState\<close>. The block
  yields \<open>False\<close> where the method returns from inside it.
\<close>

definition createBackup_pushBlock :: "'w Env \<Rightarrow> (bool, 'w) action" where
  "createBackup_pushBlock env =
     bindA (gitCall (branchInfo env) GitBranchInfo) (\<lambda>info.
       if \<not> truthy (remote info) then
         thenA (displayErrorA
                  ''Did not push. No upstream branch is set! See README for instructions'' 10000)
        (thenA (setState PluginState_idle)
               (returnA False))
       else
         bindA (gitCall (canPush env) GitCanPush) (\<lambda>pending.
           if pending then
             thenA (ifA (\<lambda>p. pullBeforePush (settings p))
                      (bindA (gitCall (pull env) GitPull) (\<lambda>pulledFilesLength.
                         if pulledFilesLength > 0 then
                           displayMessageA
                             (''Pulled '' @ showInt env pulledFilesLength @ '' files from remote'') 4000
                         else returnA ()))
                      (returnA ()))
            (bindA (ifA (\<lambda>p. gitManager p = Some SimpleGit)
                      (bindA (gitCall (status env) GitStatus) (\<lambda>st. returnA (Some st)))
                      (returnA None)) (\<lambda>checked.
               case checked of
                 Some st \<Rightarrow>
                   if length (conflicted st) > 0 then
                     thenA (displayErrorA
                              (''Cannot push. You have '' @ showNat (length (conflicted st))
                               @ '' conflict files'') 0)
                    (thenA (detached (handleConflict env (conflicted st)))
                           (returnA False))
                   else
                     bindA (gitCall (push env) GitPush) (\<lambda>pushedFiles.
                       thenA (displayMessageA
                                (''Pushed '' @ showInt env pushedFiles @ '' files to remote'') 4000)
                             (returnA True))
               | None \<Rightarrow>
                   bindA (gitCall (push env) GitPush) (\<lambda>pushedFiles.
                     thenA (displayMessageA
                              (''Pushed '' @ showInt env pushedFiles @ '' files to remote'') 4000)
                           (returnA True))))
           else
             thenA (displayMessageA ''No changes to push'' 4000) (returnA True)))"

definition createBackup_push :: "'w Env \<Rightarrow> (unit, 'w) action" where
  "createBackup_push env =
     bindA (ifA (\<lambda>p. \<not> disablePush (settings p)) (createBackup_pushBlock env) (returnA True))
       (\<lambda>goOn. if goOn then setState PluginState_idle else returnA ())"

definition createBackup :: "'w Env \<Rightarrow> bool \<Rightarrow> string option \<Rightarrow> (unit, 'w) action" where
  "createBackup env fromAutoBackup msg =
     bindA (createBackup_checks env fromAutoBackup) (\<lambda>goOn.
       if goOn then thenA (createBackup_commit env msg) (createBackup_push env)
       else returnA ())"

section \<open>Properties of runs\<close>

text \<open>
  The result of running an action is a triple; its components are named here. A run
  property such as "never calls \<open>commitAll\<close>" is a statement about the events of a run.
\<close>

abbreviation outcomeOf :: "'a \<times> 'b \<times> 'c \<Rightarrow> 'a" where
  "outcomeOf x \<equiv> fst x"

abbreviation eventsOf :: "'a \<times> 'b \<times> 'c \<Rightarrow> 'b" where
  "eventsOf x \<equiv> fst (snd x)"

abbreviation pluginOf :: "'a \<times> 'b \<times> 'c \<Rightarrow> 'c" where
  "pluginOf x \<equiv> snd (snd x)"

text \<open>
  \<open>emitsOnly P m\<close>: whatever the plugin and the world, every effect of \<open>m\<close> satisfies \<open>P\<close>.
  \<open>keepsConfig m\<close>: \<open>m\<close> leaves the settings and the platform flag as they are.
\<close>

definition emitsOnly :: "(event \<Rightarrow> bool) \<Rightarrow> ('a, 'w) action \<Rightarrow> bool" where
  "emitsOnly P m = (\<forall>p r evs p'. m p = (r, evs, p') \<longrightarrow> (\<forall>e\<in>set evs. P e))"

definition keepsConfig :: "('a, 'w) action \<Rightarrow> bool" where
  "keepsConfig m = (\<forall>p r evs p'. m p = (r, evs, p') \<longrightarrow> settings p' = settings p \<and> isMobile p' = isMobile p)"

text \<open>The backend calls of the push block, and those together with the commit.\<close>

fun pushPhaseCall :: "event \<Rightarrow> bool" where
  "pushPhaseCall (GitPull r) = True"
| "pushPhaseCall (GitPush r) = True"
| "pushPhaseCall (GitBranchInfo r) = True"
| "pushPhaseCall (GitCanPush r) = True"
| "pushPhaseCall _ = False"

fun commitOrPushCall :: "event \<Rightarrow> bool" where
  "commitOrPushCall (GitCommitAll m r) = True"
| "commitOrPushCall e = pushPhaseCall e"

text \<open>
  What \<open>init\<close> can emit: the readiness query, one of its three error texts through
  \<open>displayError\<close>, the console line of the \<open>default\<close> branch, and the effects of the
  statements under \<open>case "valid"\<close>.
\<close>

definition readinessErrors :: "string list" where
  "readinessErrors =
     [''Cannot run git command'', ''Valid git repository not found'',
      ''Not all of the required standalone mode settings are set'']"

fun readinessEvent :: "event \<Rightarrow> bool" where
  "readinessEvent (GitCheckRequirements r) = True"
| "readinessEvent (Notice m) = (m \<in> set readinessErrors)"
| "readinessEvent (ConsoleLog m) =
     (m \<in> set (map (\<lambda>x. ''git obsidian error: '' @ x) readinessErrors)
      \<or> (\<exists>r. m = ''Something weird happened. The 'checkRequirements' result is '' @ r))"
| "readinessEvent (StatusBarMessage m t) = (m \<in> set (map toLowerCase readinessErrors))"
| "readinessEvent StatusBarDisplay = True"
| "readinessEvent (SetState s) = (s = PluginState_idle)"
| "readinessEvent (SetInterval t ms i) = True"
| "readinessEvent (RegisterInterval i) = True"
| "readinessEvent (AddTask t) = True"
| "readinessEvent _ = False"

text \<open>What the closing statements of \<open>pullChangesFromRemote\<close> can emit.\<close>

fun conflictCheckEvent :: "event \<Rightarrow> bool" where
  "conflictCheckEvent (GitStatus r) = True"
| "conflictCheckEvent (Notice m) = (\<exists>k. m = ''You have '' @ showNat k @ '' conflict files'')"
| "conflictCheckEvent (ConsoleLog m) =
     (\<exists>k. m = ''git obsidian error: '' @ ''You have '' @ showNat k @ '' conflict files'')"
| "conflictCheckEvent (StatusBarMessage m t) =
     (\<exists>k. m = toLowerCase (''You have '' @ showNat k @ '' conflict files''))"
| "conflictCheckEvent StatusBarDisplay = True"
| "conflictCheckEvent (SetState s) = (s = PluginState_idle)"
| "conflictCheckEvent _ = False"

text \<open>
  \<open>pushGuarded m\<close>: in every run of \<open>m\<close>, if \<open>push\<close> is called at all then a call of
  \<open>canPush\<close> has returned true.
\<close>

definition pushGuarded :: "('a, 'w) action \<Rightarrow> bool" where
  "pushGuarded m =
     (\<forall>p. (\<exists>x. GitPush x \<in> set (eventsOf (m p))) \<longrightarrow> GitCanPush (Inr True) \<in> set (eventsOf (m p)))"

fun notPush :: "event \<Rightarrow> bool" where
  "notPush (GitPush r) = False"
| "notPush _ = True"

section \<open>Sample collaborators and plugins\<close>

text \<open>
  A backend that answers every call with fixed values and counts the calls it has served
  in the world, a vault that holds a single file \<open>b.md\<close>, and two plugins: one as
  constructed, before \<open>init\<close> has run, and one that is ready.
\<close>

definition demoEnv :: "string \<Rightarrow> Status \<Rightarrow> BranchInfo \<Rightarrow> bool \<Rightarrow> int \<Rightarrow> nat Env" where
  "demoEnv req st info pending n =
     \<lparr> checkRequirements = (\<lambda>g w. (Inr req, Suc w)),
       status = (\<lambda>g w. (Inr st, Suc w)),
       pull = (\<lambda>g w. (Inr n, Suc w)),
       push = (\<lambda>g w. (Inr n, Suc w)),
       commitAll = (\<lambda>m g w. (Inr (int (length (changed st))), Suc w)),
       branchInfo = (\<lambda>g w. (Inr info, Suc w)),
       canPush = (\<lambda>g w. (Inr pending, Suc w)),
       getAbstractFileByPath = (\<lambda>path w. if path = ''b.md'' then Some (TFile path) else None),
       vaultDelete = (\<lambda>file w. (Inr (), Suc w)),
       fileToLinktext = (\<lambda>file src w. case file of TFile x \<Rightarrow> x | TFolder x \<Rightarrow> x),
       adapterWrite = (\<lambda>path text w. (Inr (), Suc w)),
       leafDisplayTexts = (\<lambda>w. []),
       setInterval = (\<lambda>w. (Suc w, Suc w)),
       unsafeIntegerToString = (\<lambda>i. ''1e+21'') \<rparr>"

definition freshPlugin :: "ObsidianGitSettings \<Rightarrow> bool \<Rightarrow> nat ObsidianGit" where
  "freshPlugin s mobile =
     \<lparr> settings = s, isMobile = mobile, gitManager = None, state = None,
       intervalIDBackup = None, intervalIDPull = None, gitReady = False,
       promiseQueue = [], world = 0 \<rparr>"

definition readyPlugin :: "ObsidianGitSettings \<Rightarrow> GitManager \<Rightarrow> nat ObsidianGit" where
  "readyPlugin s g =
     \<lparr> settings = s, isMobile = False, gitManager = Some g, state = Some PluginState_idle,
       intervalIDBackup = None, intervalIDPull = None, gitReady = True,
       promiseQueue = [], world = 0 \<rparr>"

definition cleanStatus :: Status where
  "cleanStatus = \<lparr> changed = [], conflicted = [] \<rparr>"

definition conflictStatus :: Status where
  "conflictStatus = \<lparr> changed = [''a.md''], conflicted = [''b.md'', ''c.md''] \<rparr>"

definition trackedBranch :: BranchInfo where
  "trackedBranch = \<lparr> current = ''main'', remote = Some ''origin/main'' \<rparr>"

definition untrackedBranch :: BranchInfo where
  "untrackedBranch = \<lparr> current = ''main'', remote = None \<rparr>"

text \<open>
  Three backends: one with nothing to do, one that has a changed file, two conflicted
  paths, pending commits and an upstream that delivers one file, and one without an
  upstream.
\<close>

definition idleEnv :: "nat Env" where
  "idleEnv = demoEnv ''valid'' cleanStatus trackedBranch False 0"

definition conflictEnv :: "nat Env" where
  "conflictEnv = demoEnv ''valid'' conflictStatus trackedBranch True 1"

definition noUpstreamEnv :: "nat Env" where
  "noUpstreamEnv = demoEnv ''valid'' cleanStatus untrackedBranch True 0"

definition newPlugin :: "nat ObsidianGit" where
  "newPlugin = freshPlugin DEFAULT_SETTINGS False"

definition simplePlugin :: "nat ObsidianGit" where
  "simplePlugin = readyPlugin DEFAULT_SETTINGS SimpleGit"

text \<open>A plugin as constructed, with standalone mode switched on in its settings.\<close>

definition standalonePlugin :: "nat ObsidianGit" where
  "standalonePlugin = freshPlugin (DEFAULT_SETTINGS\<lparr>standaloneMode := True\<rparr>) False"

section \<open>Reasoning about actions\<close>

text \<open>
  Two kinds of statement are proved about a workflow. Where the answers of the
  collaborators are given, the run is computed: the definitions unfold and the result is
  an explicit triple. Where a part of the run is left open, what it can emit is bounded by
  \<open>emitsOnly\<close>, proved by following the structure of the action.
\<close>

named_theorems action_defs

lemmas [action_defs] = returnA_def bindA_def thenA_def ifA_def emit_def detached_def gitCall_def
  setState_def displayMessageA_def displayErrorA_def addTask_def enableAutoBackup_def
  enableAutoPull_def

lemmas demo_defs = demoEnv_def freshPlugin_def readyPlugin_def cleanStatus_def conflictStatus_def
  trackedBranch_def untrackedBranch_def DEFAULT_SETTINGS_def idleEnv_def conflictEnv_def
  noUpstreamEnv_def newPlugin_def simplePlugin_def
  standalonePlugin_def

lemma emitsOnlyD: "emitsOnly P m \<Longrightarrow> m p = (r, evs, p') \<Longrightarrow> e \<in> set evs \<Longrightarrow> P e"
  unfolding emitsOnly_def by blast

lemma emitsOnly_mono: "emitsOnly P m \<Longrightarrow> (\<And>e. P e \<Longrightarrow> Q e) \<Longrightarrow> emitsOnly Q m"
  unfolding emitsOnly_def by blast

lemma emitsOnly_returnA: "emitsOnly P (returnA x)"
  by (simp add: emitsOnly_def returnA_def)

lemma emitsOnly_bindA:
  assumes "emitsOnly P m" and "\<And>a. emitsOnly P (f a)"
  shows "emitsOnly P (bindA m f)"
  using assms unfolding emitsOnly_def bindA_def
  by (fastforce split: prod.splits sum.splits)

lemma emitsOnly_thenA: "emitsOnly P m \<Longrightarrow> emitsOnly P n \<Longrightarrow> emitsOnly P (thenA m n)"
  by (simp add: thenA_def emitsOnly_bindA)

lemma emitsOnly_ifA: "emitsOnly P m \<Longrightarrow> emitsOnly P n \<Longrightarrow> emitsOnly P (ifA c m n)"
  by (simp add: emitsOnly_def ifA_def)

lemma emitsOnly_if: "emitsOnly P m \<Longrightarrow> emitsOnly P n \<Longrightarrow> emitsOnly P (if c then m else n)"
  by simp

lemma emitsOnly_detached: "emitsOnly P m \<Longrightarrow> emitsOnly P (detached m)"
  unfolding emitsOnly_def detached_def by (fastforce split: prod.splits)

lemma emitsOnly_gitCall: "(\<And>r. P (ev r)) \<Longrightarrow> emitsOnly P (gitCall f ev)"
  unfolding emitsOnly_def gitCall_def by (auto split: option.splits prod.splits)

lemma emitsOnly_setState: "P (SetState s) \<Longrightarrow> P StatusBarDisplay \<Longrightarrow> emitsOnly P (setState s)"
  by (auto simp: emitsOnly_def setState_def)

lemma emitsOnly_displayMessageA:
  "P (StatusBarMessage (toLowerCase m) t) \<Longrightarrow> P (Notice m)
   \<Longrightarrow> P (ConsoleLog (''git obsidian message: '' @ m))
   \<Longrightarrow> emitsOnly P (displayMessageA m t)"
  by (auto simp: emitsOnly_def displayMessageA_def displayMessage_def)

lemma emitsOnly_displayErrorA:
  "P (StatusBarMessage (toLowerCase m) t) \<Longrightarrow> P (Notice m)
   \<Longrightarrow> P (ConsoleLog (''git obsidian error: '' @ m))
   \<Longrightarrow> emitsOnly P (displayErrorA m t)"
  by (auto simp: emitsOnly_def displayErrorA_def displayError_def)

lemma emitsOnly_addTask: "P (AddTask t) \<Longrightarrow> emitsOnly P (addTask t)"
  by (simp add: emitsOnly_def addTask_def)

lemma emitsOnly_enableAutoBackup:
  "(\<And>t ms i. P (SetInterval t ms i)) \<Longrightarrow> (\<And>i. P (RegisterInterval i))
   \<Longrightarrow> emitsOnly P (enableAutoBackup env)"
  by (auto simp: emitsOnly_def enableAutoBackup_def split: prod.splits)

lemma emitsOnly_enableAutoPull:
  "(\<And>t ms i. P (SetInterval t ms i)) \<Longrightarrow> (\<And>i. P (RegisterInterval i))
   \<Longrightarrow> emitsOnly P (enableAutoPull env)"
  by (auto simp: emitsOnly_def enableAutoPull_def split: prod.splits)

lemma emitsOnly_emit: "(\<forall>e\<in>set evs. P e) \<Longrightarrow> emitsOnly P (emit evs)"
  by (simp add: emitsOnly_def emit_def)

lemma emitsOnly_silent: "emitsOnly P (\<lambda>p. (Inr x, [], g p))"
  by (simp add: emitsOnly_def)

lemma emitsOnly_clearConflictFile:
  "(\<And>f r. P (VaultDelete f r)) \<Longrightarrow> emitsOnly P (clearConflictFile env)"
  by (auto simp: emitsOnly_def clearConflictFile_def Let_def split: prod.splits)

lemma emitsOnly_writeAndOpenFile:
  "(\<And>a b c. P (AdapterWrite a b c)) \<Longrightarrow> (\<And>a b c. P (OpenLinkText a b c))
   \<Longrightarrow> emitsOnly P (writeAndOpenFile env text)"
  by (auto simp: emitsOnly_def writeAndOpenFile_def thenA_def bindA_def Let_def
           split: prod.splits sum.splits if_splits)

lemma emitsOnly_handleConflict:
  "P (SetState PluginState_conflicted) \<Longrightarrow> P StatusBarDisplay
   \<Longrightarrow> (\<And>a b c. P (AdapterWrite a b c)) \<Longrightarrow> (\<And>a b c. P (OpenLinkText a b c))
   \<Longrightarrow> emitsOnly P (handleConflict env cs)"
  unfolding handleConflict_def
  apply (intro emitsOnly_thenA emitsOnly_setState; simp?)
  using emitsOnly_detached[OF emitsOnly_writeAndOpenFile, of P env]
  by (auto simp: emitsOnly_def)

lemmas emitsOnly_intros = emitsOnly_returnA emitsOnly_bindA emitsOnly_thenA emitsOnly_ifA
  emitsOnly_if emitsOnly_detached emitsOnly_gitCall emitsOnly_setState emitsOnly_displayMessageA
  emitsOnly_displayErrorA emitsOnly_addTask emitsOnly_enableAutoBackup emitsOnly_enableAutoPull
  emitsOnly_emit emitsOnly_silent emitsOnly_clearConflictFile emitsOnly_handleConflict

lemma notPush_of_not_call: "\<not> commitOrPushCall e \<Longrightarrow> notPush e"
  by (cases e) simp_all

lemma notPush_of_not_pushPhase: "\<not> pushPhaseCall e \<Longrightarrow> notPush e"
  by (cases e) simp_all

lemma pushGuarded_quiet: "emitsOnly notPush m \<Longrightarrow> pushGuarded m"
  unfolding pushGuarded_def emitsOnly_def
  by (metis notPush.simps(1) prod.collapse)

lemma pushGuarded_after_quiet:
  assumes "emitsOnly notPush m" and "\<And>a. pushGuarded (f a)"
  shows "pushGuarded (bindA m f)"
  unfolding pushGuarded_def
proof (intro allI impI)
  fix p assume "\<exists>x. GitPush x \<in> set (eventsOf (bindA m f p))"
  then obtain x where x: "GitPush x \<in> set (eventsOf (bindA m f p))" ..
  obtain r e1 p1 where mp: "m p = (r, e1, p1)" by (metis prod_cases3)
  have quiet: "GitPush x \<notin> set e1"
    using emitsOnlyD[OF assms(1) mp, of "GitPush x"] by auto
  show "GitCanPush (Inr True) \<in> set (eventsOf (bindA m f p))"
  proof (cases r)
    case (Inl err)
    with mp x quiet show ?thesis by (simp add: bindA_def)
  next
    case (Inr a)
    obtain r2 e2 p2 where fp: "f a p1 = (r2, e2, p2)" by (metis prod_cases3)
    have "GitPush x \<in> set e2"
      using mp x quiet Inr fp by (simp add: bindA_def)
    then have "GitCanPush (Inr True) \<in> set e2"
      using assms(2)[of a] fp unfolding pushGuarded_def by (metis fst_conv snd_conv)
    then show ?thesis
      using mp Inr fp by (simp add: bindA_def)
  qed
qed

lemma pushGuarded_before_quiet:
  assumes "pushGuarded m" and "\<And>a. emitsOnly notPush (f a)"
  shows "pushGuarded (bindA m f)"
  unfolding pushGuarded_def
proof (intro allI impI)
  fix p assume "\<exists>x. GitPush x \<in> set (eventsOf (bindA m f p))"
  then obtain x where x: "GitPush x \<in> set (eventsOf (bindA m f p))" ..
  obtain r e1 p1 where mp: "m p = (r, e1, p1)" by (metis prod_cases3)
  have guard: "(\<exists>x. GitPush x \<in> set e1) \<longrightarrow> GitCanPush (Inr True) \<in> set e1"
    using assms(1) mp unfolding pushGuarded_def by (metis fst_conv snd_conv)
  show "GitCanPush (Inr True) \<in> set (eventsOf (bindA m f p))"
  proof (cases r)
    case (Inl err)
    with mp x guard show ?thesis by (auto simp: bindA_def)
  next
    case (Inr a)
    obtain r2 e2 p2 where fp: "f a p1 = (r2, e2, p2)" by (metis prod_cases3)
    have "GitPush x \<notin> set e2"
      using emitsOnlyD[OF assms(2) fp, of "GitPush x"] by auto
    then have "GitPush x \<in> set e1"
      using mp x Inr fp by (simp add: bindA_def)
    then show ?thesis
      using guard mp Inr fp by (auto simp: bindA_def)
  qed
qed

lemma pushGuarded_canPush:
  assumes "emitsOnly notPush n"
  shows "pushGuarded (bindA (gitCall (canPush env) GitCanPush) (\<lambda>pending. if pending then m else n))"
  unfolding pushGuarded_def
proof (intro allI impI)
  fix p
  assume "\<exists>x. GitPush x \<in> set (eventsOf (bindA (gitCall (canPush env) GitCanPush)
                                          (\<lambda>pending. if pending then m else n) p))"
  then obtain x where x: "GitPush x \<in> set (eventsOf (bindA (gitCall (canPush env) GitCanPush)
                                          (\<lambda>pending. if pending then m else n) p))" ..
  show "GitCanPush (Inr True) \<in> set (eventsOf (bindA (gitCall (canPush env) GitCanPush)
                                          (\<lambda>pending. if pending then m else n) p))"
  proof (cases "gitManager p")
    case None
    with x show ?thesis by (simp add: bindA_def gitCall_def)
  next
    case (Some g)
    obtain r w where cp: "canPush env g (world p) = (r, w)" by fastforce
    show ?thesis
    proof (cases r)
      case (Inl err)
      with x Some cp show ?thesis by (simp add: bindA_def gitCall_def)
    next
      case (Inr pending)
      show ?thesis
      proof (cases pending)
        case True
        with Some cp Inr show ?thesis
          by (simp add: bindA_def gitCall_def split: prod.splits)
      next
        case False
        obtain r2 e2 p2 where np: "n (p\<lparr>world := w\<rparr>) = (r2, e2, p2)" by (metis prod_cases3)
        have "GitPush x \<notin> set e2"
          using emitsOnlyD[OF assms np, of "GitPush x"] by auto
        with x Some cp Inr False np show ?thesis
          by (simp add: bindA_def gitCall_def)
      qed
    qed
  qed
qed

lemma pushGuarded_if: "pushGuarded m \<Longrightarrow> pushGuarded n \<Longrightarrow> pushGuarded (if c then m else n)"
  by simp

lemma pushGuarded_ifA: "pushGuarded m \<Longrightarrow> pushGuarded n \<Longrightarrow> pushGuarded (ifA c m n)"
  by (simp add: pushGuarded_def ifA_def)

lemma keepsConfigD:
  "keepsConfig m \<Longrightarrow> m p = (r, evs, p') \<Longrightarrow> settings p' = settings p \<and> isMobile p' = isMobile p"
  unfolding keepsConfig_def by blast

lemma keepsConfig_bindA:
  assumes "keepsConfig m" and "\<And>a. keepsConfig (f a)"
  shows "keepsConfig (bindA m f)"
  using assms unfolding keepsConfig_def bindA_def
  by (fastforce split: prod.splits sum.splits)

lemma keepsConfig_thenA: "keepsConfig m \<Longrightarrow> keepsConfig n \<Longrightarrow> keepsConfig (thenA m n)"
  by (simp add: thenA_def keepsConfig_bindA)

lemma keepsConfig_ifA: "keepsConfig m \<Longrightarrow> keepsConfig n \<Longrightarrow> keepsConfig (ifA c m n)"
  by (simp add: keepsConfig_def ifA_def)

lemma keepsConfig_if: "keepsConfig m \<Longrightarrow> keepsConfig n \<Longrightarrow> keepsConfig (if c then m else n)"
  by simp

lemma keepsConfig_detached: "keepsConfig m \<Longrightarrow> keepsConfig (detached m)"
  unfolding keepsConfig_def detached_def by (fastforce split: prod.splits)

lemma keepsConfig_basic:
  "keepsConfig (returnA x)"
  "keepsConfig (gitCall f ev)"
  "keepsConfig (setState s)"
  "keepsConfig (displayMessageA m t)"
  "keepsConfig (displayErrorA m t)"
  "keepsConfig (addTask k)"
  "keepsConfig (enableAutoBackup env)"
  "keepsConfig (enableAutoPull env)"
  "keepsConfig (emit evs)"
  "keepsConfig (clearConflictFile env)"
  by (auto simp: keepsConfig_def action_defs clearConflictFile_def Let_def
           split: option.splits prod.splits)

lemma keepsConfig_update:
  "keepsConfig (\<lambda>p. (Inr x, [], p\<lparr>gitReady := b\<rparr>))"
  "keepsConfig (\<lambda>p. (Inr x, [], p\<lparr>gitManager := g p\<rparr>))"
  by (simp_all add: keepsConfig_def)

lemma keepsConfig_writeAndOpenFile: "keepsConfig (writeAndOpenFile env text)"
  by (auto simp: keepsConfig_def writeAndOpenFile_def thenA_def bindA_def Let_def
           split: prod.splits sum.splits if_splits)

lemma keepsConfig_handleConflict: "keepsConfig (handleConflict env cs)"
  unfolding handleConflict_def
  apply (intro keepsConfig_thenA keepsConfig_basic)
  using keepsConfig_detached[OF keepsConfig_writeAndOpenFile, of env]
  by (auto simp: keepsConfig_def)

lemmas keepsConfig_intros = keepsConfig_bindA keepsConfig_thenA keepsConfig_ifA keepsConfig_if
  keepsConfig_detached keepsConfig_basic keepsConfig_update keepsConfig_handleConflict

lemma toLowerCase_simps:
  "toLowerCase [] = []"
  "toLowerCase (c # s) = lowerChar c # toLowerCase s"
  "toLowerCase (s @ t) = toLowerCase s @ toLowerCase t"
  by (simp_all add: toLowerCase_def)

lemma lowerChar_eval:
  "lowerChar CHR '' '' = CHR '' ''" "lowerChar CHR ''!'' = CHR ''!''"
  "lowerChar CHR ''+'' = CHR ''+''" "lowerChar CHR '','' = CHR '',''"
  "lowerChar CHR ''-'' = CHR ''-''" "lowerChar CHR ''.'' = CHR ''.''"
  "lowerChar CHR ''0'' = CHR ''0''" "lowerChar CHR ''1'' = CHR ''1''"
  "lowerChar CHR ''2'' = CHR ''2''" "lowerChar CHR ''3'' = CHR ''3''"
  "lowerChar CHR ''4'' = CHR ''4''" "lowerChar CHR ''5'' = CHR ''5''"
  "lowerChar CHR ''6'' = CHR ''6''" "lowerChar CHR ''7'' = CHR ''7''"
  "lowerChar CHR ''8'' = CHR ''8''" "lowerChar CHR ''9'' = CHR ''9''"
  "lowerChar CHR ''A'' = CHR ''a''" "lowerChar CHR ''C'' = CHR ''c''"
  "lowerChar CHR ''D'' = CHR ''d''" "lowerChar CHR ''E'' = CHR ''e''"
  "lowerChar CHR ''M'' = CHR ''m''" "lowerChar CHR ''N'' = CHR ''n''"
  "lowerChar CHR ''P'' = CHR ''p''" "lowerChar CHR ''R'' = CHR ''r''"
  "lowerChar CHR ''S'' = CHR ''s''" "lowerChar CHR ''V'' = CHR ''v''"
  "lowerChar CHR ''Y'' = CHR ''y''" "lowerChar CHR ''a'' = CHR ''a''"
  "lowerChar CHR ''b'' = CHR ''b''" "lowerChar CHR ''c'' = CHR ''c''"
  "lowerChar CHR ''d'' = CHR ''d''" "lowerChar CHR ''e'' = CHR ''e''"
  "lowerChar CHR ''f'' = CHR ''f''" "lowerChar CHR ''g'' = CHR ''g''"
  "lowerChar CHR ''h'' = CHR ''h''" "lowerChar CHR ''i'' = CHR ''i''"
  "lowerChar CHR ''l'' = CHR ''l''" "lowerChar CHR ''m'' = CHR ''m''"
  "lowerChar CHR ''n'' = CHR ''n''" "lowerChar CHR ''o'' = CHR ''o''"
  "lowerChar CHR ''p'' = CHR ''p''" "lowerChar CHR ''q'' = CHR ''q''"
  "lowerChar CHR ''r'' = CHR ''r''" "lowerChar CHR ''s'' = CHR ''s''"
  "lowerChar CHR ''t'' = CHR ''t''" "lowerChar CHR ''u'' = CHR ''u''"
  "lowerChar CHR ''v'' = CHR ''v''" "lowerChar CHR ''w'' = CHR ''w''"
  "lowerChar CHR ''y'' = CHR ''y''"
  by (simp_all add: lowerChar_def)

section \<open>What each part of a workflow can emit\<close>

lemma init_keepsConfig: "keepsConfig (init env)"
  unfolding init_def init_valid_def
  by (intro keepsConfig_intros)

lemma ensureReady_keepsConfig: "keepsConfig (ensureReady env)"
  unfolding ensureReady_def
  by (intro keepsConfig_intros init_keepsConfig)

lemma init_events: "emitsOnly readinessEvent (init env)"
  unfolding init_def init_valid_def
  by (intro emitsOnly_intros; simp add: readinessErrors_def)

lemma ensureReady_events: "emitsOnly readinessEvent (ensureReady env)"
  unfolding ensureReady_def
  by (intro emitsOnly_intros init_events)

lemma ensureReady_run:
  assumes "ensureReady env p = (r, e0, p1)"
  shows "\<And>e. e \<in> set e0 \<Longrightarrow> readinessEvent e"
    and "settings p1 = settings p" and "isMobile p1 = isMobile p"
  using emitsOnlyD[OF ensureReady_events assms] keepsConfigD[OF ensureReady_keepsConfig assms]
  by auto

lemma readinessEvent_not_call: "readinessEvent e \<Longrightarrow> \<not> commitOrPushCall e"
  by (cases e) simp_all

lemma pullChangesFromRemote_conflicts_events:
  "emitsOnly conflictCheckEvent (pullChangesFromRemote_conflicts env)"
  unfolding pullChangesFromRemote_conflicts_def
  by (intro emitsOnly_intros; simp) blast+

lemma createBackup_checks_events:
  "emitsOnly (\<lambda>e. \<not> commitOrPushCall e) (createBackup_checks env a)"
  unfolding createBackup_checks_def
  by (intro emitsOnly_intros emitsOnly_mono[OF ensureReady_events readinessEvent_not_call]; simp)

lemma createBackup_checks_keepsConfig: "keepsConfig (createBackup_checks env a)"
  unfolding createBackup_checks_def
  by (intro keepsConfig_intros ensureReady_keepsConfig)

lemma createBackup_commit_events:
  "emitsOnly (\<lambda>e. \<not> pushPhaseCall e) (createBackup_commit env msg)"
  unfolding createBackup_commit_def
  by (intro emitsOnly_intros; simp)

lemma createBackup_commit_keepsConfig: "keepsConfig (createBackup_commit env msg)"
  unfolding createBackup_commit_def
  by (intro keepsConfig_intros)

lemma createBackup_push_events:
  "emitsOnly (\<lambda>e. \<forall>m x. e \<noteq> GitCommitAll m x) (createBackup_push env)"
  unfolding createBackup_push_def createBackup_pushBlock_def
  by (intro emitsOnly_intros; (simp split: option.splits)?)
     (intro conjI impI allI emitsOnly_intros; simp)+

section \<open>Initialization\<close>

text \<open>
  Claim C10. When the readiness check answers with a value outside \<open>valid\<close>,
  \<open>missing-git\<close>, \<open>missing-repo\<close> and \<open>wrong-settings\<close>, \<open>init\<close> resolves having emitted
  the query and one console line and nothing else: no notice and no status-bar message,
  no timer, no queued task. Of the plugin only \<open>gitManager\<close> (assigned before the query)
  and the world changed, so \<open>gitReady\<close>, \<open>state\<close> and the interval ids are as before.
\<close>

theorem init_unknown_result_only_logs:
  assumes "checkRequirements env
             (if standaloneMode (settings p) \<or> isMobile p then IsomorphicGit else SimpleGit)
             (world p) = (Inr result, w)"
    and "result \<notin> {''valid'', ''missing-git'', ''missing-repo'', ''wrong-settings''}"
  shows "init env p =
           (Inr (),
            [GitCheckRequirements (Inr result),
             ConsoleLog (''Something weird happened. The 'checkRequirements' result is '' @ result)],
            p\<lparr>gitManager :=
                Some (if standaloneMode (settings p) \<or> isMobile p then IsomorphicGit else SimpleGit),
              world := w\<rparr>)"
  using assms by (simp add: init_def action_defs)

theorem init_unknown_result_only_logs_witness:
  "checkRequirements (demoEnv ''busy'' cleanStatus trackedBranch False 0)
     (if standaloneMode (settings (freshPlugin DEFAULT_SETTINGS False))
         \<or> isMobile (freshPlugin DEFAULT_SETTINGS False) then IsomorphicGit else SimpleGit)
     (world (freshPlugin DEFAULT_SETTINGS False)) = (Inr ''busy'', 1)
   \<and> ''busy'' \<notin> {''valid'', ''missing-git'', ''missing-repo'', ''wrong-settings''}
   \<and> init (demoEnv ''busy'' cleanStatus trackedBranch False 0) (freshPlugin DEFAULT_SETTINGS False) =
       (Inr (),
        [GitCheckRequirements (Inr ''busy''),
         ConsoleLog ''Something weird happened. The 'checkRequirements' result is busy''],
        (freshPlugin DEFAULT_SETTINGS False)\<lparr>gitManager := Some SimpleGit, world := 1\<rparr>)"
  using init_unknown_result_only_logs
          [of "demoEnv ''busy'' cleanStatus trackedBranch False 0" "freshPlugin DEFAULT_SETTINGS False"
              "''busy''" 1]
  by (simp add: demo_defs)

text \<open>
  The results \<open>missing-git\<close> and \<open>missing-repo\<close>: \<open>init\<close> displays the error of its
  branch and leaves the plugin as it was, \<open>gitManager\<close> and the world apart.
\<close>

lemma init_missing_stays_not_ready:
  assumes "checkRequirements env
             (if standaloneMode (settings p) \<or> isMobile p then IsomorphicGit else SimpleGit)
             (world p) = (Inr result, w)"
    and "result = ''missing-git'' \<or> result = ''missing-repo''"
  shows "init env p =
           (Inr (),
            GitCheckRequirements (Inr result)
              # displayError p (if result = ''missing-git'' then ''Cannot run git command''
                                else ''Valid git repository not found'') 0,
            p\<lparr>gitManager :=
                Some (if standaloneMode (settings p) \<or> isMobile p then IsomorphicGit else SimpleGit),
              world := w\<rparr>)"
  using assms by (auto simp: init_def action_defs displayError_def)

text \<open>
  Claim C1. The claim holds for \<open>missing-git\<close> and \<open>missing-repo\<close> (above) and fails for
  \<open>wrong-settings\<close>: with standalone mode on and an auto-backup interval of five minutes,
  \<open>init\<close> displays the error and then runs the statements of \<open>case "valid"\<close>, so that
  \<open>gitReady\<close> becomes true, the state becomes \<open>idle\<close> and the backup timer is armed.
\<close>

theorem init_wrong_settings_falls_through:
  "init (demoEnv ''wrong-settings'' cleanStatus trackedBranch False 0)
        (freshPlugin (DEFAULT_SETTINGS\<lparr>standaloneMode := True, autoSaveInterval := 5\<rparr>) False) =
     (Inr (),
      [GitCheckRequirements (Inr ''wrong-settings''),
       Notice ''Not all of the required standalone mode settings are set'',
       ConsoleLog ''git obsidian error: Not all of the required standalone mode settings are set'',
       StatusBarMessage (toLowerCase ''Not all of the required standalone mode settings are set'') 0,
       SetState PluginState_idle, StatusBarDisplay,
       SetInterval (BackupTask True) 300000 2, RegisterInterval 2],
      (freshPlugin (DEFAULT_SETTINGS\<lparr>standaloneMode := True, autoSaveInterval := 5\<rparr>) False)
        \<lparr>gitManager := Some IsomorphicGit, state := Some PluginState_idle,
         intervalIDBackup := Some 2, gitReady := True, world := 2\<rparr>)"
  by (simp add: init_def init_valid_def action_defs displayError_def demo_defs)

section \<open>Rendering of counts and of the report\<close>

text \<open>
  \<open>showNat\<close> writes decimal digits only, and read back in base ten they give the number.
  Lower-casing leaves them as they are.
\<close>

lemma lowerChar_digit: "d < 10 \<Longrightarrow> lowerChar (digitChar d) = digitChar d"
  by (simp add: digitChar_def lowerChar_def)

lemma of_char_digit: "d < 10 \<Longrightarrow> (of_char (digitChar d) :: nat) = 48 + d"
  by (auto simp: digitChar_def)

lemma digitChar_digit: "d < 10 \<Longrightarrow> digitChar d \<in> set ''0123456789''"
  by (simp add: digitChar_def)

lemma showNat_digits: "set (showNat n) \<subseteq> set ''0123456789''"
proof (induction n rule: showNat.induct)
  case (1 n)
  show ?case
  proof (cases "n < 10")
    case True
    then show ?thesis
      using digitChar_digit[of n] by (subst showNat.simps) simp
  next
    case False
    have "n mod 10 < 10" by simp
    then show ?thesis
      using False "1.IH" digitChar_digit[of "n mod 10"] by (subst showNat.simps) simp
  qed
qed

lemma showNat_value: "foldl (\<lambda>a c. 10 * a + (of_char c - 48)) 0 (showNat n) = n"
proof (induction n rule: showNat.induct)
  case (1 n)
  show ?case
  proof (cases "n < 10")
    case True
    then show ?thesis
      by (subst showNat.simps) (simp add: of_char_digit)
  next
    case False
    have "n mod 10 < 10" by simp
    then show ?thesis
      using False "1.IH" by (subst showNat.simps) (simp add: of_char_digit)
  qed
qed

lemma toLowerCase_showNat: "toLowerCase (showNat n) = showNat n"
proof (induction n rule: showNat.induct)
  case (1 n)
  show ?case
  proof (cases "n < 10")
    case True
    then show ?thesis
      by (subst (1 2) showNat.simps) (simp add: toLowerCase_def lowerChar_digit)
  next
    case False
    have "n mod 10 < 10" by simp
    then show ?thesis
      using False "1.IH"
      by (subst (1 2) showNat.simps) (simp add: toLowerCase_simps lowerChar_digit)
  qed
qed

lemma showInt_safe:
  "0 \<le> i \<Longrightarrow> i < 2 ^ 53 \<Longrightarrow> showInt env i = showNat (nat i)"
  by (simp add: showInt_def)

text \<open>
  The text that \<open>handleConflict\<close> writes, spelled out: the heading, the instruction line,
  and for every path a line feed and its bullet.
\<close>

lemma join_Cons: "join sep (x # xs) = x @ concat (map (\<lambda>y. sep @ y) xs)"
  by (induction xs arbitrary: x) simp_all

lemma conflictReport_text:
  "conflictReport env w cs =
     ''# Conflict files'' @ [CHR 0x0A]
     @ ''Please resolve them and commit per command (This file will be deleted before the commit).''
     @ concat (map (\<lambda>e. CHR 0x0A
                          # (case getAbstractFileByPath env e w of
                               Some (TFile f) \<Rightarrow> ''- [['' @ fileToLinktext env (TFile f) ''/'' w @ '']]''
                             | _ \<Rightarrow> ''- Not a file: '' @ e)) cs)"
proof -
  have line: "(\<lambda>y. [CHR 0x0A] @ y) \<circ> conflictLine env w =
                (\<lambda>e. CHR 0x0A
                          # (case getAbstractFileByPath env e w of
                               Some (TFile f) \<Rightarrow> ''- [['' @ fileToLinktext env (TFile f) ''/'' w @ '']]''
                             | _ \<Rightarrow> ''- Not a file: '' @ e))"
    by (rule ext) (simp add: conflictLine_def)
  show ?thesis
    unfolding conflictReport_def join_Cons
    by (simp add: line del: join.simps)
qed

section \<open>The pull workflow\<close>

text \<open>
  Once the coordinator is ready and the backend's pull has returned \<open>n\<close>, the run is the
  readiness effects, the pull, one message chosen by \<open>n > 0\<close>, and the closing statements.
\<close>

lemma pull_run:
  assumes ready: "ensureReady env p = (Inr (), e0, p1)" and gr: "gitReady p1"
    and gm: "gitManager p1 = Some g" and pl: "pull env g (world p1) = (Inr n, w)"
  shows "pullChangesFromRemote env p =
           (case pullChangesFromRemote_conflicts env (p1\<lparr>world := w\<rparr>) of
              (r, e2, p') \<Rightarrow>
                (r, e0 @ GitPull (Inr n)
                      # displayMessage p
                          (if n > 0 then ''Pulled new changes. '' @ showInt env n @ '' files updated''
                           else ''Everything is up-to-date'') 4000
                      @ e2, p'))"
  using assms ensureReady_run(2,3)[OF ready]
  by (simp add: pullChangesFromRemote_def action_defs displayMessage_def split: prod.splits)

text \<open>
  Claim C4. In a run of the pull workflow whose pull returns \<open>0\<close>, the console line of
  \<open>Everything is up-to-date\<close> is among the events, with its notice unless pop-ups are
  disabled and its status-bar message unless the app is mobile, and no notice, console line
  or status-bar message that begins \<open>Pulled new changes.\<close> is. In a run whose pull returns
  \<open>n > 0\<close>, the console line, notice and status-bar message of
  \<open>Pulled new changes. n files updated\<close> are among the events, the count being written in
  decimal digits that read back as \<open>n\<close> (for \<open>n\<close> in the safe range), and no effect of the
  up-to-date message is.
\<close>

theorem pull_reports_count:
  assumes ready: "ensureReady env p = (Inr (), e0, p1)" and gr: "gitReady p1"
    and gm: "gitManager p1 = Some g" and pl: "pull env g (world p1) = (Inr n, w)"
  shows "(n = 0 \<longrightarrow>
            ConsoleLog ''git obsidian message: Everything is up-to-date''
              \<in> set (eventsOf (pullChangesFromRemote env p))
            \<and> (\<not> disablePopups (settings p) \<longrightarrow>
                 Notice ''Everything is up-to-date'' \<in> set (eventsOf (pullChangesFromRemote env p)))
            \<and> (\<not> isMobile p \<longrightarrow>
                 StatusBarMessage ''everything is up-to-date'' 4000
                   \<in> set (eventsOf (pullChangesFromRemote env p)))
            \<and> (\<forall>m t. Notice (''Pulled new changes. '' @ m)
                         \<notin> set (eventsOf (pullChangesFromRemote env p))
                      \<and> ConsoleLog (''git obsidian message: Pulled new changes. '' @ m)
                         \<notin> set (eventsOf (pullChangesFromRemote env p))
                      \<and> StatusBarMessage (''pulled new changes. '' @ m) t
                         \<notin> set (eventsOf (pullChangesFromRemote env p))))
       \<and> (0 < n \<longrightarrow>
            ConsoleLog (''git obsidian message: Pulled new changes. '' @ showInt env n @ '' files updated'')
              \<in> set (eventsOf (pullChangesFromRemote env p))
            \<and> (\<not> disablePopups (settings p) \<longrightarrow>
                 Notice (''Pulled new changes. '' @ showInt env n @ '' files updated'')
                   \<in> set (eventsOf (pullChangesFromRemote env p)))
            \<and> (\<not> isMobile p \<longrightarrow>
                 StatusBarMessage
                   (''pulled new changes. '' @ toLowerCase (showInt env n) @ '' files updated'') 4000
                   \<in> set (eventsOf (pullChangesFromRemote env p)))
            \<and> (n < 2 ^ 53 \<longrightarrow>
                 set (showInt env n) \<subseteq> set ''0123456789''
                 \<and> foldl (\<lambda>a c. 10 * a + (of_char c - 48)) 0 (showInt env n) = nat n)
            \<and> (\<forall>t. Notice ''Everything is up-to-date''
                       \<notin> set (eventsOf (pullChangesFromRemote env p))
                    \<and> ConsoleLog ''git obsidian message: Everything is up-to-date''
                       \<notin> set (eventsOf (pullChangesFromRemote env p))
                    \<and> StatusBarMessage ''everything is up-to-date'' t
                       \<notin> set (eventsOf (pullChangesFromRemote env p))))"
proof -
  obtain r e2 p' where tail: "pullChangesFromRemote_conflicts env (p1\<lparr>world := w\<rparr>) = (r, e2, p')"
    by (metis prod_cases3)
  have evs: "eventsOf (pullChangesFromRemote env p) =
               e0 @ GitPull (Inr n)
                  # displayMessage p
                      (if n > 0 then ''Pulled new changes. '' @ showInt env n @ '' files updated''
                       else ''Everything is up-to-date'') 4000
                  @ e2"
    by (simp add: pull_run[OF assms] tail)
  note e0 = ensureReady_run(1)[OF ready]
  note e2 = emitsOnlyD[OF pullChangesFromRemote_conflicts_events tail]
  have digits: "0 < n \<Longrightarrow> n < 2 ^ 53 \<Longrightarrow>
                 set (showInt env n) \<subseteq> set ''0123456789''
                 \<and> foldl (\<lambda>a c. 10 * a + (of_char c - 48)) 0 (showInt env n) = nat n"
    using showNat_digits[of "nat n"] showNat_value[of "nat n"] by (simp add: showInt_safe)
  have zero: "n = 0 \<longrightarrow>
            ConsoleLog ''git obsidian message: Everything is up-to-date''
              \<in> set (eventsOf (pullChangesFromRemote env p))
            \<and> (\<not> disablePopups (settings p) \<longrightarrow>
                 Notice ''Everything is up-to-date'' \<in> set (eventsOf (pullChangesFromRemote env p)))
            \<and> (\<not> isMobile p \<longrightarrow>
                 StatusBarMessage ''everything is up-to-date'' 4000
                   \<in> set (eventsOf (pullChangesFromRemote env p)))
            \<and> (\<forall>m t. Notice (''Pulled new changes. '' @ m)
                         \<notin> set (eventsOf (pullChangesFromRemote env p))
                      \<and> ConsoleLog (''git obsidian message: Pulled new changes. '' @ m)
                         \<notin> set (eventsOf (pullChangesFromRemote env p))
                      \<and> StatusBarMessage (''pulled new changes. '' @ m) t
                         \<notin> set (eventsOf (pullChangesFromRemote env p)))"
    unfolding evs
    by (auto simp: displayMessage_def readinessErrors_def toLowerCase_simps lowerChar_eval
          dest!: e0 e2)
  have pos: "0 < n \<longrightarrow>
            ConsoleLog (''git obsidian message: Pulled new changes. '' @ showInt env n @ '' files updated'')
              \<in> set (eventsOf (pullChangesFromRemote env p))
            \<and> (\<not> disablePopups (settings p) \<longrightarrow>
                 Notice (''Pulled new changes. '' @ showInt env n @ '' files updated'')
                   \<in> set (eventsOf (pullChangesFromRemote env p)))
            \<and> (\<not> isMobile p \<longrightarrow>
                 StatusBarMessage
                   (''pulled new changes. '' @ toLowerCase (showInt env n) @ '' files updated'') 4000
                   \<in> set (eventsOf (pullChangesFromRemote env p)))
            \<and> (\<forall>t. Notice ''Everything is up-to-date''
                       \<notin> set (eventsOf (pullChangesFromRemote env p))
                    \<and> ConsoleLog ''git obsidian message: Everything is up-to-date''
                       \<notin> set (eventsOf (pullChangesFromRemote env p))
                    \<and> StatusBarMessage ''everything is up-to-date'' t
                       \<notin> set (eventsOf (pullChangesFromRemote env p)))"
    unfolding evs
    by (auto simp: displayMessage_def readinessErrors_def toLowerCase_simps lowerChar_eval
          dest!: e0 e2)
  show ?thesis
    using zero pos digits by blast
qed

theorem pull_reports_count_witness:
  "ensureReady idleEnv newPlugin
     = (Inr (), [GitCheckRequirements (Inr ''valid''), SetState PluginState_idle, StatusBarDisplay],
        newPlugin\<lparr>gitManager := Some SimpleGit, state := Some PluginState_idle,
                  gitReady := True, world := 1\<rparr>)
   \<and> pull idleEnv SimpleGit 1 = (Inr 0, 2)
   \<and> ConsoleLog ''git obsidian message: Everything is up-to-date''
        \<in> set (eventsOf (pullChangesFromRemote idleEnv newPlugin))
   \<and> Notice ''Everything is up-to-date'' \<in> set (eventsOf (pullChangesFromRemote idleEnv newPlugin))
   \<and> StatusBarMessage ''everything is up-to-date'' 4000
        \<in> set (eventsOf (pullChangesFromRemote idleEnv newPlugin))
   \<and> Notice ''Pulled new changes. 0 files updated''
        \<notin> set (eventsOf (pullChangesFromRemote idleEnv newPlugin))
   \<and> pull conflictEnv SimpleGit 0 = (Inr 1, 1)
   \<and> ConsoleLog ''git obsidian message: Pulled new changes. 1 files updated''
        \<in> set (eventsOf (pullChangesFromRemote conflictEnv simplePlugin))
   \<and> Notice ''Pulled new changes. 1 files updated''
        \<in> set (eventsOf (pullChangesFromRemote conflictEnv simplePlugin))
   \<and> StatusBarMessage ''pulled new changes. 1 files updated'' 4000
        \<in> set (eventsOf (pullChangesFromRemote conflictEnv simplePlugin))
   \<and> Notice ''Everything is up-to-date''
        \<notin> set (eventsOf (pullChangesFromRemote conflictEnv simplePlugin))"
proof -
  let ?P1 = "newPlugin\<lparr>gitManager := Some SimpleGit, state := Some PluginState_idle,
                       gitReady := True, world := 1\<rparr>"
  have h1: "ensureReady idleEnv newPlugin
     = (Inr (), [GitCheckRequirements (Inr ''valid''), SetState PluginState_idle, StatusBarDisplay], ?P1)"
    by (simp add: ensureReady_def init_def init_valid_def action_defs demo_defs)
  have h2: "gitReady ?P1" and h3: "gitManager ?P1 = Some SimpleGit"
    and g4: "pull idleEnv SimpleGit 1 = (Inr 0, 2)"
    and f1: "\<not> disablePopups (settings newPlugin)" and f2: "\<not> isMobile newPlugin"
    by (simp_all add: demo_defs)
  have h4: "pull idleEnv SimpleGit (world ?P1) = (Inr 0, 2)"
    using g4 by simp
  have k1: "ensureReady conflictEnv simplePlugin = (Inr (), [], simplePlugin)"
    and k2: "gitReady simplePlugin" and k3: "gitManager simplePlugin = Some SimpleGit"
    and k4: "pull conflictEnv SimpleGit (world simplePlugin) = (Inr 1, 1)"
    and g5: "pull conflictEnv SimpleGit 0 = (Inr 1, 1)"
    and f3: "\<not> disablePopups (settings simplePlugin)" and f4: "\<not> isMobile simplePlugin"
    by (simp_all add: ensureReady_def action_defs demo_defs)
  have one: "showInt conflictEnv 1 = ''1''"
    by (simp add: showInt_def showNat.simps digitChar_def)
  note zero = pull_reports_count[OF h1 h2 h3 h4, THEN conjunct1, rule_format, OF refl]
  have a: "ConsoleLog ''git obsidian message: Everything is up-to-date''
             \<in> set (eventsOf (pullChangesFromRemote idleEnv newPlugin))"
    and b: "Notice ''Everything is up-to-date'' \<in> set (eventsOf (pullChangesFromRemote idleEnv newPlugin))"
    and c: "StatusBarMessage ''everything is up-to-date'' 4000
              \<in> set (eventsOf (pullChangesFromRemote idleEnv newPlugin))"
    using zero f1 f2 by blast+
  have d: "Notice ''Pulled new changes. 0 files updated''
             \<notin> set (eventsOf (pullChangesFromRemote idleEnv newPlugin))"
    using zero[THEN conjunct2, THEN conjunct2, THEN conjunct2, rule_format, of "''0 files updated''" 0]
    by simp
  have pos1: "(0::int) < 1" by simp
  note pos = pull_reports_count[OF k1 k2 k3 k4, THEN conjunct2, rule_format, OF pos1, unfolded one]
  have e: "ConsoleLog ''git obsidian message: Pulled new changes. 1 files updated''
             \<in> set (eventsOf (pullChangesFromRemote conflictEnv simplePlugin))"
    using pos[THEN conjunct1] by simp
  have f: "Notice ''Pulled new changes. 1 files updated''
             \<in> set (eventsOf (pullChangesFromRemote conflictEnv simplePlugin))"
    using pos[THEN conjunct2, THEN conjunct1] f3 by simp
  have g: "StatusBarMessage ''pulled new changes. 1 files updated'' 4000
             \<in> set (eventsOf (pullChangesFromRemote conflictEnv simplePlugin))"
    using pos[THEN conjunct2, THEN conjunct2, THEN conjunct1] f4
    by (simp add: toLowerCase_simps lowerChar_eval)
  have h: "Notice ''Everything is up-to-date''
             \<notin> set (eventsOf (pullChangesFromRemote conflictEnv simplePlugin))"
    using pos by blast
  show ?thesis
    by (intro conjI) (fact h1 g4 a b c d g5 e f g h)+
qed

text \<open>
  With a \<open>SimpleGit\<close> backend whose status after the pull lists conflicts, the whole run is
  known: the readiness effects, the pull and its message, the status query, one error, and
  the return to \<open>idle\<close>.
\<close>

lemma pull_conflicts_run:
  assumes ready: "ensureReady env p = (Inr (), e0, p1)" and gr: "gitReady p1"
    and gm: "gitManager p1 = Some SimpleGit"
    and pl: "pull env SimpleGit (world p1) = (Inr n, w1)"
    and st: "status env SimpleGit w1 = (Inr st, w2)"
    and cf: "conflicted st \<noteq> []"
  shows "pullChangesFromRemote env p =
           (Inr (),
            e0 @ GitPull (Inr n)
               # displayMessage p
                   (if n > 0 then ''Pulled new changes. '' @ showInt env n @ '' files updated''
                    else ''Everything is up-to-date'') 4000
               @ GitStatus (Inr st)
               # displayError p
                   (''You have '' @ showNat (length (conflicted st)) @ '' conflict files'') 0
               @ SetState PluginState_idle # (if \<not> isMobile p then [StatusBarDisplay] else []),
            p1\<lparr>world := w2, state := Some PluginState_idle\<rparr>)"
  using gm st cf ensureReady_run(2,3)[OF ready]
  by (simp add: pull_run[OF ready gr gm pl] pullChangesFromRemote_conflicts_def action_defs
        displayError_def)

text \<open>
  Claim C9. In a run of the pull workflow on a \<open>SimpleGit\<close> backend whose status after the
  pull lists at least one conflicted path, the workflow resolves; the notice and the
  console line of the error \<open>You have N conflict files\<close> are among the events, with the
  status-bar message unless the app is mobile, \<open>N\<close> being the number of conflicted paths
  written in decimal digits; no file is written and none is opened, the state is never set
  to \<open>conflicted\<close>, and the state at the end is \<open>idle\<close>.
\<close>

theorem pull_conflicts_reported_not_escalated:
  assumes ready: "ensureReady env p = (Inr (), e0, p1)" and gr: "gitReady p1"
    and gm: "gitManager p1 = Some SimpleGit"
    and pl: "pull env SimpleGit (world p1) = (Inr n, w1)"
    and st: "status env SimpleGit w1 = (Inr st, w2)"
    and cf: "conflicted st \<noteq> []"
  shows "outcomeOf (pullChangesFromRemote env p) = Inr ()
       \<and> Notice (''You have '' @ showNat (length (conflicted st)) @ '' conflict files'')
           \<in> set (eventsOf (pullChangesFromRemote env p))
       \<and> ConsoleLog (''git obsidian error: You have '' @ showNat (length (conflicted st))
                      @ '' conflict files'')
           \<in> set (eventsOf (pullChangesFromRemote env p))
       \<and> (\<not> isMobile p \<longrightarrow>
            StatusBarMessage (''you have '' @ showNat (length (conflicted st)) @ '' conflict files'') 0
              \<in> set (eventsOf (pullChangesFromRemote env p)))
       \<and> set (showNat (length (conflicted st))) \<subseteq> set ''0123456789''
       \<and> foldl (\<lambda>a c. 10 * a + (of_char c - 48)) 0 (showNat (length (conflicted st)))
           = length (conflicted st)
       \<and> (\<forall>path text res. AdapterWrite path text res \<notin> set (eventsOf (pullChangesFromRemote env p)))
       \<and> (\<forall>path src new. OpenLinkText path src new \<notin> set (eventsOf (pullChangesFromRemote env p)))
       \<and> SetState PluginState_conflicted \<notin> set (eventsOf (pullChangesFromRemote env p))
       \<and> state (pluginOf (pullChangesFromRemote env p)) = Some PluginState_idle"
proof -
  note e0 = ensureReady_run(1)[OF ready]
  have shown: "Notice (''You have '' @ showNat (length (conflicted st)) @ '' conflict files'')
           \<in> set (eventsOf (pullChangesFromRemote env p))
       \<and> ConsoleLog (''git obsidian error: You have '' @ showNat (length (conflicted st))
                      @ '' conflict files'')
           \<in> set (eventsOf (pullChangesFromRemote env p))
       \<and> (\<not> isMobile p \<longrightarrow>
            StatusBarMessage (''you have '' @ showNat (length (conflicted st)) @ '' conflict files'') 0
              \<in> set (eventsOf (pullChangesFromRemote env p)))"
    unfolding pull_conflicts_run[OF assms]
    by (simp add: displayError_def toLowerCase_simps lowerChar_eval toLowerCase_showNat)
  have quiet: "(\<forall>path text res. AdapterWrite path text res \<notin> set (eventsOf (pullChangesFromRemote env p)))
       \<and> (\<forall>path src new. OpenLinkText path src new \<notin> set (eventsOf (pullChangesFromRemote env p)))
       \<and> SetState PluginState_conflicted \<notin> set (eventsOf (pullChangesFromRemote env p))"
    unfolding pull_conflicts_run[OF assms]
    by (auto simp: displayMessage_def displayError_def dest!: e0)
  have rest: "outcomeOf (pullChangesFromRemote env p) = Inr ()
       \<and> state (pluginOf (pullChangesFromRemote env p)) = Some PluginState_idle"
    by (simp add: pull_conflicts_run[OF assms])
  show ?thesis
    using shown quiet rest showNat_digits[of "length (conflicted st)"]
      showNat_value[of "length (conflicted st)"]
    by blast
qed

theorem pull_conflicts_reported_not_escalated_witness:
  "ensureReady conflictEnv simplePlugin = (Inr (), [], simplePlugin)
   \<and> gitReady simplePlugin
   \<and> gitManager simplePlugin = Some SimpleGit
   \<and> pull conflictEnv SimpleGit (world simplePlugin) = (Inr 1, 1)
   \<and> status conflictEnv SimpleGit 1 = (Inr conflictStatus, 2)
   \<and> conflicted conflictStatus = [''b.md'', ''c.md'']
   \<and> outcomeOf (pullChangesFromRemote conflictEnv simplePlugin) = Inr ()
   \<and> Notice ''You have 2 conflict files''
        \<in> set (eventsOf (pullChangesFromRemote conflictEnv simplePlugin))
   \<and> ConsoleLog ''git obsidian error: You have 2 conflict files''
        \<in> set (eventsOf (pullChangesFromRemote conflictEnv simplePlugin))
   \<and> StatusBarMessage ''you have 2 conflict files'' 0
        \<in> set (eventsOf (pullChangesFromRemote conflictEnv simplePlugin))
   \<and> (\<forall>path text res.
          AdapterWrite path text res \<notin> set (eventsOf (pullChangesFromRemote conflictEnv simplePlugin)))
   \<and> SetState PluginState_conflicted \<notin> set (eventsOf (pullChangesFromRemote conflictEnv simplePlugin))
   \<and> state (pluginOf (pullChangesFromRemote conflictEnv simplePlugin)) = Some PluginState_idle"
proof -
  have h1: "ensureReady conflictEnv simplePlugin = (Inr (), [], simplePlugin)"
    and h2: "gitReady simplePlugin"
    and h3: "gitManager simplePlugin = Some SimpleGit"
    and h4: "pull conflictEnv SimpleGit (world simplePlugin) = (Inr 1, 1)"
    and h5: "status conflictEnv SimpleGit 1 = (Inr conflictStatus, 2)"
    and h6: "conflicted conflictStatus = [''b.md'', ''c.md'']"
    and f1: "\<not> isMobile simplePlugin"
    by (simp_all add: ensureReady_def action_defs demo_defs)
  have h7: "conflicted conflictStatus \<noteq> []"
    by (simp add: h6)
  have two: "showNat (length (conflicted conflictStatus)) = ''2''"
    by (simp add: h6 showNat.simps digitChar_def)
  note main = pull_conflicts_reported_not_escalated[OF h1 h2 h3 h4 h5 h7, unfolded two]
  have a: "outcomeOf (pullChangesFromRemote conflictEnv simplePlugin) = Inr ()"
    using main by blast
  have b: "Notice ''You have 2 conflict files''
             \<in> set (eventsOf (pullChangesFromRemote conflictEnv simplePlugin))"
    using main[THEN conjunct2, THEN conjunct1] by simp
  have c: "ConsoleLog ''git obsidian error: You have 2 conflict files''
             \<in> set (eventsOf (pullChangesFromRemote conflictEnv simplePlugin))"
    using main[THEN conjunct2, THEN conjunct2, THEN conjunct1] by simp
  have d: "StatusBarMessage ''you have 2 conflict files'' 0
             \<in> set (eventsOf (pullChangesFromRemote conflictEnv simplePlugin))"
    using main[THEN conjunct2, THEN conjunct2, THEN conjunct2, THEN conjunct1] f1 by simp
  have e: "\<forall>path text res.
          AdapterWrite path text res \<notin> set (eventsOf (pullChangesFromRemote conflictEnv simplePlugin))"
    and f: "SetState PluginState_conflicted
              \<notin> set (eventsOf (pullChangesFromRemote conflictEnv simplePlugin))"
    and g: "state (pluginOf (pullChangesFromRemote conflictEnv simplePlugin)) = Some PluginState_idle"
    using main by blast+
  show ?thesis
    by (intro conjI) (fact h1 h2 h3 h4 h5 h6 a b c d e f g)+
qed

section \<open>The conflict report\<close>

text \<open>
  \<open>handleConflict\<close> always resolves. It sets the state to \<open>conflicted\<close>, writes the report
  for the paths it was given to the fixed path, and afterwards at most opens that file.
\<close>

lemma handleConflict_run:
  "\<exists>opens w'.
     handleConflict env cs q =
       (Inr (),
        SetState PluginState_conflicted # (if \<not> isMobile q then [StatusBarDisplay] else [])
          @ AdapterWrite conflictOutputFile (conflictReport env (world q) cs)
              (fst (adapterWrite env conflictOutputFile (conflictReport env (world q) cs) (world q)))
          # opens,
        q\<lparr>state := Some PluginState_conflicted, world := w'\<rparr>)
     \<and> (\<forall>e\<in>set opens. \<exists>a b c. e = OpenLinkText a b c)"
  by (auto simp: handleConflict_def writeAndOpenFile_def action_defs Let_def
           split: prod.splits sum.splits)

section \<open>The backup workflow\<close>

lemma bindA_events_prefix: "set (eventsOf (m p)) \<subseteq> set (eventsOf (bindA m f p))"
  by (auto simp: bindA_def split: prod.splits sum.splits)

lemma createBackup_checks_run:
  assumes "createBackup_checks env a p = (r, e1, p1)"
  shows "\<And>e. e \<in> set e1 \<Longrightarrow> \<not> commitOrPushCall e"
    and "settings p1 = settings p" and "isMobile p1 = isMobile p"
  using emitsOnlyD[OF createBackup_checks_events assms]
    keepsConfigD[OF createBackup_checks_keepsConfig assms]
  by auto

lemma createBackup_commit_run:
  assumes "createBackup_commit env msg p1 = (r, e2, p2)"
  shows "\<And>e. e \<in> set e2 \<Longrightarrow> \<not> pushPhaseCall e"
    and "settings p2 = settings p1" and "isMobile p2 = isMobile p1"
  using emitsOnlyD[OF createBackup_commit_events assms]
    keepsConfigD[OF createBackup_commit_keepsConfig assms]
  by auto

text \<open>
  An automatic run on a ready coordinator with a \<open>SimpleGit\<close> backend whose first status
  lists conflicts: the whole run.
\<close>

lemma auto_backup_conflict_run:
  assumes ready: "ensureReady env p = (Inr (), e0, p1)" and gr: "gitReady p1"
    and gm: "gitManager p1 = Some SimpleGit"
    and st: "status env SimpleGit (world p1) = (Inr st, w)"
    and cf: "conflicted st \<noteq> []"
  shows "\<exists>opens w'.
           createBackup env True msg p =
             (Inr (),
              e0 @ GitStatus (Inr st)
                 # SetState PluginState_idle # (if \<not> isMobile p then [StatusBarDisplay] else [])
                 @ displayError p
                     (''Did not commit, because you have '' @ showNat (length (conflicted st))
                      @ '' conflict files. Please resolve them and commit per command.'') 0
                 @ SetState PluginState_conflicted # (if \<not> isMobile p then [StatusBarDisplay] else [])
                 @ AdapterWrite conflictOutputFile (conflictReport env w (conflicted st))
                     (fst (adapterWrite env conflictOutputFile (conflictReport env w (conflicted st)) w))
                 # opens,
              p1\<lparr>state := Some PluginState_conflicted, world := w'\<rparr>)
           \<and> (\<forall>e\<in>set opens. \<exists>a b c. e = OpenLinkText a b c)"
proof -
  obtain opens w' where hc:
    "handleConflict env (conflicted st) (p1\<lparr>world := w, state := Some PluginState_idle\<rparr>) =
       (Inr (),
        SetState PluginState_conflicted # (if \<not> isMobile p1 then [StatusBarDisplay] else [])
          @ AdapterWrite conflictOutputFile (conflictReport env w (conflicted st))
              (fst (adapterWrite env conflictOutputFile (conflictReport env w (conflicted st)) w))
          # opens,
        p1\<lparr>state := Some PluginState_conflicted, world := w'\<rparr>)"
    and opens: "\<forall>e\<in>set opens. \<exists>a b c. e = OpenLinkText a b c"
    using handleConflict_run[of env "conflicted st" "p1\<lparr>world := w, state := Some PluginState_idle\<rparr>"]
    by auto
  have "createBackup env True msg p =
             (Inr (),
              e0 @ GitStatus (Inr st)
                 # SetState PluginState_idle # (if \<not> isMobile p then [StatusBarDisplay] else [])
                 @ displayError p
                     (''Did not commit, because you have '' @ showNat (length (conflicted st))
                      @ '' conflict files. Please resolve them and commit per command.'') 0
                 @ SetState PluginState_conflicted # (if \<not> isMobile p then [StatusBarDisplay] else [])
                 @ AdapterWrite conflictOutputFile (conflictReport env w (conflicted st))
                     (fst (adapterWrite env conflictOutputFile (conflictReport env w (conflicted st)) w))
                 # opens,
              p1\<lparr>state := Some PluginState_conflicted, world := w'\<rparr>)"
    using ready gr gm st cf hc ensureReady_run(2,3)[OF ready]
    by (simp add: createBackup_def createBackup_checks_def action_defs displayError_def)
  with opens show ?thesis by blast
qed

text \<open>
  Claim C2. In an automatically triggered run of \<open>createBackup\<close> on a \<open>SimpleGit\<close> backend
  whose status lists at least one conflicted path, the workflow resolves without any call
  of \<open>commitAll\<close>, the state is set to \<open>conflicted\<close> and is \<open>conflicted\<close> at the end, and the
  text written to \<open>conflict-files-obsidian-git.md\<close> is the heading, the instruction line
  and then, for each conflicted path in the order of the list, a line feed and one bullet:
  a link to the file the path resolves to, or \<open>Not a file:\<close> and the path.
\<close>

theorem auto_backup_stops_on_conflicts:
  assumes ready: "ensureReady env p = (Inr (), e0, p1)" and gr: "gitReady p1"
    and gm: "gitManager p1 = Some SimpleGit"
    and st: "status env SimpleGit (world p1) = (Inr st, w)"
    and cf: "conflicted st \<noteq> []"
  shows "outcomeOf (createBackup env True msg p) = Inr ()
       \<and> (\<forall>m x. GitCommitAll m x \<notin> set (eventsOf (createBackup env True msg p)))
       \<and> SetState PluginState_conflicted \<in> set (eventsOf (createBackup env True msg p))
       \<and> state (pluginOf (createBackup env True msg p)) = Some PluginState_conflicted
       \<and> (\<exists>res. AdapterWrite ''conflict-files-obsidian-git.md''
                  (''# Conflict files'' @ [CHR 0x0A]
                   @ ''Please resolve them and commit per command (This file will be deleted before the commit).''
                   @ concat (map (\<lambda>e. CHR 0x0A
                                        # (case getAbstractFileByPath env e w of
                                             Some (TFile f) \<Rightarrow>
                                               ''- [['' @ fileToLinktext env (TFile f) ''/'' w @ '']]''
                                           | _ \<Rightarrow> ''- Not a file: '' @ e))
                               (conflicted st))) res
                \<in> set (eventsOf (createBackup env True msg p)))"
proof -
  obtain opens w' where run: "createBackup env True msg p =
             (Inr (),
              e0 @ GitStatus (Inr st)
                 # SetState PluginState_idle # (if \<not> isMobile p then [StatusBarDisplay] else [])
                 @ displayError p
                     (''Did not commit, because you have '' @ showNat (length (conflicted st))
                      @ '' conflict files. Please resolve them and commit per command.'') 0
                 @ SetState PluginState_conflicted # (if \<not> isMobile p then [StatusBarDisplay] else [])
                 @ AdapterWrite conflictOutputFile (conflictReport env w (conflicted st))
                     (fst (adapterWrite env conflictOutputFile (conflictReport env w (conflicted st)) w))
                 # opens,
              p1\<lparr>state := Some PluginState_conflicted, world := w'\<rparr>)"
    and opens: "\<forall>e\<in>set opens. \<exists>a b c. e = OpenLinkText a b c"
    using auto_backup_conflict_run[OF assms] by blast
  note e0 = ensureReady_run(1)[OF ready]
  have nocommit: "\<forall>m x. GitCommitAll m x \<notin> set (eventsOf (createBackup env True msg p))"
    unfolding run using opens by (auto simp: displayError_def dest!: e0)
  have written: "AdapterWrite conflictOutputFile (conflictReport env w (conflicted st))
                   (fst (adapterWrite env conflictOutputFile (conflictReport env w (conflicted st)) w))
                   \<in> set (eventsOf (createBackup env True msg p))"
    and set_state: "SetState PluginState_conflicted \<in> set (eventsOf (createBackup env True msg p))"
    unfolding run by auto
  have rest: "outcomeOf (createBackup env True msg p) = Inr ()
       \<and> state (pluginOf (createBackup env True msg p)) = Some PluginState_conflicted"
    by (simp add: run)
  show ?thesis
    using nocommit rest set_state written[unfolded conflictReport_text conflictOutputFile_def]
    by blast
qed

theorem auto_backup_stops_on_conflicts_witness:
  "ensureReady conflictEnv newPlugin =
     (Inr (), [GitCheckRequirements (Inr ''valid''), SetState PluginState_idle, StatusBarDisplay],
      newPlugin\<lparr>gitManager := Some SimpleGit, state := Some PluginState_idle,
                gitReady := True, world := 1\<rparr>)
   \<and> status conflictEnv SimpleGit 1 = (Inr conflictStatus, 2)
   \<and> conflicted conflictStatus = [''b.md'', ''c.md'']
   \<and> outcomeOf (createBackup conflictEnv True None newPlugin) = Inr ()
   \<and> (\<forall>m x. GitCommitAll m x \<notin> set (eventsOf (createBackup conflictEnv True None newPlugin)))
   \<and> state (pluginOf (createBackup conflictEnv True None newPlugin)) = Some PluginState_conflicted
   \<and> (\<exists>res. AdapterWrite ''conflict-files-obsidian-git.md''
              (''# Conflict files'' @ [CHR 0x0A]
               @ ''Please resolve them and commit per command (This file will be deleted before the commit).''
               @ [CHR 0x0A] @ ''- [[b.md]]'' @ [CHR 0x0A] @ ''- Not a file: c.md'') res
            \<in> set (eventsOf (createBackup conflictEnv True None newPlugin)))
   \<and> createBackup conflictEnv True None newPlugin =
       (Inr (),
        [GitCheckRequirements (Inr ''valid''), SetState PluginState_idle, StatusBarDisplay,
         GitStatus (Inr conflictStatus),
         SetState PluginState_idle, StatusBarDisplay,
         Notice ''Did not commit, because you have 2 conflict files. Please resolve them and commit per command.'',
         ConsoleLog ''git obsidian error: Did not commit, because you have 2 conflict files. Please resolve them and commit per command.'',
         StatusBarMessage ''did not commit, because you have 2 conflict files. please resolve them and commit per command.'' 0,
         SetState PluginState_conflicted, StatusBarDisplay,
         AdapterWrite ''conflict-files-obsidian-git.md''
           (''# Conflict files'' @ [CHR 0x0A]
               @ ''Please resolve them and commit per command (This file will be deleted before the commit).''
               @ [CHR 0x0A] @ ''- [[b.md]]'' @ [CHR 0x0A] @ ''- Not a file: c.md'') (Inr ()),
         OpenLinkText ''conflict-files-obsidian-git.md'' ''/'' True],
        newPlugin\<lparr>gitManager := Some SimpleGit, state := Some PluginState_conflicted,
                  gitReady := True, world := 3\<rparr>)"
proof -
  let ?P1 = "newPlugin\<lparr>gitManager := Some SimpleGit, state := Some PluginState_idle,
                       gitReady := True, world := 1\<rparr>"
  have h1: "ensureReady conflictEnv newPlugin =
     (Inr (), [GitCheckRequirements (Inr ''valid''), SetState PluginState_idle, StatusBarDisplay], ?P1)"
    by (simp add: ensureReady_def init_def init_valid_def action_defs demo_defs)
  have h2: "gitReady ?P1" and h3: "gitManager ?P1 = Some SimpleGit"
    and g4: "status conflictEnv SimpleGit 1 = (Inr conflictStatus, 2)"
    and h5: "conflicted conflictStatus = [''b.md'', ''c.md'']"
    by (simp_all add: demo_defs)
  have h4: "status conflictEnv SimpleGit (world ?P1) = (Inr conflictStatus, 2)"
    using g4 by simp
  have h6: "conflicted conflictStatus \<noteq> []"
    by (simp add: h5)
  have look: "getAbstractFileByPath conflictEnv ''b.md'' 2 = Some (TFile ''b.md'')"
    "getAbstractFileByPath conflictEnv ''c.md'' 2 = None"
    "fileToLinktext conflictEnv (TFile ''b.md'') ''/'' 2 = ''b.md''"
    by (simp_all add: demo_defs)
  note main = auto_backup_stops_on_conflicts[OF h1 h2 h3 h4 h6, of None]
  have a: "outcomeOf (createBackup conflictEnv True None newPlugin) = Inr ()"
    and b: "\<forall>m x. GitCommitAll m x \<notin> set (eventsOf (createBackup conflictEnv True None newPlugin))"
    and c: "state (pluginOf (createBackup conflictEnv True None newPlugin)) = Some PluginState_conflicted"
    using main by blast+
  have d: "\<exists>res. AdapterWrite ''conflict-files-obsidian-git.md''
              (''# Conflict files'' @ [CHR 0x0A]
               @ ''Please resolve them and commit per command (This file will be deleted before the commit).''
               @ [CHR 0x0A] @ ''- [[b.md]]'' @ [CHR 0x0A] @ ''- Not a file: c.md'') res
            \<in> set (eventsOf (createBackup conflictEnv True None newPlugin))"
    using main[THEN conjunct2, THEN conjunct2, THEN conjunct2, THEN conjunct2]
    by (simp add: h5 look)
  have e: "createBackup conflictEnv True None newPlugin =
       (Inr (),
        [GitCheckRequirements (Inr ''valid''), SetState PluginState_idle, StatusBarDisplay,
         GitStatus (Inr conflictStatus),
         SetState PluginState_idle, StatusBarDisplay,
         Notice ''Did not commit, because you have 2 conflict files. Please resolve them and commit per command.'',
         ConsoleLog ''git obsidian error: Did not commit, because you have 2 conflict files. Please resolve them and commit per command.'',
         StatusBarMessage ''did not commit, because you have 2 conflict files. please resolve them and commit per command.'' 0,
         SetState PluginState_conflicted, StatusBarDisplay,
         AdapterWrite ''conflict-files-obsidian-git.md''
           (''# Conflict files'' @ [CHR 0x0A]
               @ ''Please resolve them and commit per command (This file will be deleted before the commit).''
               @ [CHR 0x0A] @ ''- [[b.md]]'' @ [CHR 0x0A] @ ''- Not a file: c.md'') (Inr ()),
         OpenLinkText ''conflict-files-obsidian-git.md'' ''/'' True],
        newPlugin\<lparr>gitManager := Some SimpleGit, state := Some PluginState_conflicted,
                  gitReady := True, world := 3\<rparr>)"
    by (simp add: createBackup_def createBackup_checks_def createBackup_commit_def
          createBackup_push_def createBackup_pushBlock_def clearConflictFile_def ensureReady_def
          init_def init_valid_def handleConflict_def writeAndOpenFile_def conflictReport_def
          conflictLine_def action_defs displayMessage_def displayError_def Let_def truthy_def
          showInt_def showNat.simps digitChar_def toLowerCase_simps lowerChar_eval
          demo_defs conflictOutputFile_def)
  show ?thesis
    by (intro conjI) (fact h1 g4 h5 a b c d e)+
qed

text \<open>
  The parts of a manual run: the checks pass whatever the status lists as conflicted (the
  status is queried only on a \<open>SimpleGit\<close> backend); the commit part commits when files
  have changed; on a \<open>SimpleGit\<close> backend the push part stops at conflicts found after the
  pull.
\<close>

lemma manual_checks_run:
  assumes ready: "ensureReady env p = (Inr (), e0, p1)" and gr: "gitReady p1"
    and gm: "gitManager p1 = Some SimpleGit"
    and del: "vaultDelete env (getAbstractFileByPath env conflictOutputFile (world p1)) (world p1)
                = (Inr (), w1)"
    and st1: "status env SimpleGit w1 = (Inr s1, w2)"
  shows "createBackup_checks env False p =
           (Inr True,
            e0 @ [VaultDelete (getAbstractFileByPath env conflictOutputFile (world p1)) (Inr ()),
                  GitStatus (Inr s1)],
            p1\<lparr>world := w2\<rparr>)"
  using assms
  by (simp add: createBackup_checks_def clearConflictFile_def action_defs Let_def)

lemma manual_checks_run_other:
  assumes ready: "ensureReady env p = (Inr (), e0, p1)" and gr: "gitReady p1"
    and gm: "gitManager p1 = Some g" and other: "g \<noteq> SimpleGit"
    and del: "vaultDelete env (getAbstractFileByPath env conflictOutputFile (world p1)) (world p1)
                = (Inr (), w1)"
  shows "createBackup_checks env False p =
           (Inr True,
            e0 @ [VaultDelete (getAbstractFileByPath env conflictOutputFile (world p1)) (Inr ())],
            p1\<lparr>world := w1\<rparr>)"
  using assms
  by (simp add: createBackup_checks_def clearConflictFile_def action_defs Let_def)

lemma manual_commit_run:
  assumes gm: "gitManager q = Some g"
    and st2: "status env g (world q) = (Inr s2, w3)"
    and changed: "changed s2 \<noteq> []"
    and cm: "commitAll env msg g w3 = (Inr n, w4)"
  shows "createBackup_commit env msg q =
           (Inr (),
            GitStatus (Inr s2) # GitCommitAll msg (Inr n)
              # displayMessage q (''Committed '' @ showInt env n @ '' files'') 4000,
            q\<lparr>world := w4\<rparr>)"
  using assms
  by (simp add: createBackup_commit_def action_defs displayMessage_def)

lemma push_conflict_run:
  assumes enabled: "\<not> disablePush (settings q)"
    and gm: "gitManager q = Some SimpleGit"
    and bi: "branchInfo env SimpleGit (world q) = (Inr info, w5)"
    and tracked: "truthy (remote info)"
    and cp: "canPush env SimpleGit w5 = (Inr True, w6)"
    and pl: "if pullBeforePush (settings q) then pull env SimpleGit w6 = (Inr k, w7) else w7 = w6"
    and st3: "status env SimpleGit w7 = (Inr s3, w8)"
    and cf: "conflicted s3 \<noteq> []"
  shows "\<exists>opens w'.
           createBackup_push env q =
             (Inr (),
              GitBranchInfo (Inr info) # GitCanPush (Inr True)
                # (if pullBeforePush (settings q)
                   then GitPull (Inr k)
                          # (if k > 0
                             then displayMessage q (''Pulled '' @ showInt env k @ '' files from remote'') 4000
                             else [])
                   else [])
                @ GitStatus (Inr s3)
                # displayError q
                    (''Cannot push. You have '' @ showNat (length (conflicted s3)) @ '' conflict files'') 0
                @ SetState PluginState_conflicted # (if \<not> isMobile q then [StatusBarDisplay] else [])
                @ AdapterWrite conflictOutputFile (conflictReport env w8 (conflicted s3))
                    (fst (adapterWrite env conflictOutputFile (conflictReport env w8 (conflicted s3)) w8))
                # opens,
              q\<lparr>state := Some PluginState_conflicted, world := w'\<rparr>)
           \<and> (\<forall>e\<in>set opens. \<exists>a b c. e = OpenLinkText a b c)"
proof -
  obtain opens w' where hc:
    "handleConflict env (conflicted s3) (q\<lparr>world := w8\<rparr>) =
       (Inr (),
        SetState PluginState_conflicted # (if \<not> isMobile q then [StatusBarDisplay] else [])
          @ AdapterWrite conflictOutputFile (conflictReport env w8 (conflicted s3))
              (fst (adapterWrite env conflictOutputFile (conflictReport env w8 (conflicted s3)) w8))
          # opens,
        q\<lparr>state := Some PluginState_conflicted, world := w'\<rparr>)"
    and opens: "\<forall>e\<in>set opens. \<exists>a b c. e = OpenLinkText a b c"
    using handleConflict_run[of env "conflicted s3" "q\<lparr>world := w8\<rparr>"]
    by auto
  have "createBackup_push env q =
             (Inr (),
              GitBranchInfo (Inr info) # GitCanPush (Inr True)
                # (if pullBeforePush (settings q)
                   then GitPull (Inr k)
                          # (if k > 0
                             then displayMessage q (''Pulled '' @ showInt env k @ '' files from remote'') 4000
                             else [])
                   else [])
                @ GitStatus (Inr s3)
                # displayError q
                    (''Cannot push. You have '' @ showNat (length (conflicted s3)) @ '' conflict files'') 0
                @ SetState PluginState_conflicted # (if \<not> isMobile q then [StatusBarDisplay] else [])
                @ AdapterWrite conflictOutputFile (conflictReport env w8 (conflicted s3))
                    (fst (adapterWrite env conflictOutputFile (conflictReport env w8 (conflicted s3)) w8))
                # opens,
              q\<lparr>state := Some PluginState_conflicted, world := w'\<rparr>)"
  proof (cases "pullBeforePush (settings q)")
    case True
    with pl have pl': "pull env SimpleGit w6 = (Inr k, w7)" by simp
    show ?thesis
      using enabled gm bi tracked cp pl' st3 cf hc True
      by (simp add: createBackup_push_def createBackup_pushBlock_def action_defs
            displayMessage_def displayError_def)
  next
    case False
    with pl have pl': "w7 = w6" by simp
    show ?thesis
      using enabled gm bi tracked cp pl' st3 cf hc False
      by (simp add: createBackup_push_def createBackup_pushBlock_def action_defs
            displayMessage_def displayError_def)
  qed
  with opens show ?thesis by blast
qed

lemma commit_is_called:
  assumes checks: "createBackup_checks env a p = (Inr True, e1, q)"
    and gm: "gitManager q = Some g"
    and st2: "status env g (world q) = (Inr s2, w3)"
    and changed: "changed s2 \<noteq> []"
  shows "GitCommitAll msg (fst (commitAll env msg g w3)) \<in> set (eventsOf (createBackup env a msg p))"
proof -
  obtain r w4 where cm: "commitAll env msg g w3 = (r, w4)"
    by fastforce
  show ?thesis
  proof (cases r)
    case (Inl err)
    have "createBackup_commit env msg q =
            (Inl err, [GitStatus (Inr s2), GitCommitAll msg (Inl err)], q\<lparr>world := w4\<rparr>)"
      using gm st2 changed cm Inl by (simp add: createBackup_commit_def action_defs)
    then show ?thesis
      using checks cm Inl by (simp add: createBackup_def action_defs)
  next
    case (Inr n)
    note c2 = manual_commit_run[OF gm st2 changed cm[unfolded Inr]]
    show ?thesis
      using checks c2 cm Inr by (simp add: createBackup_def action_defs split: prod.splits)
  qed
qed

text \<open>
  Claim C3, as stated for every backend, fails. The re-check before the push is made only
  where \<open>this.gitManager instanceof SimpleGit\<close> holds (line 211). On a plugin in standalone
  mode \<open>init\<close> selects \<open>IsomorphicGit\<close>; a manual run there, with a backend whose every
  status lists two conflicted paths, commits, pulls, makes no status query after the pull
  and calls \<open>push\<close>, ending in state \<open>idle\<close>.
\<close>

theorem manual_backup_isomorphic_pushes_despite_conflicts:
  "createBackup conflictEnv False None standalonePlugin =
     (Inr (),
      [GitCheckRequirements (Inr ''valid''), SetState PluginState_idle, StatusBarDisplay,
       VaultDelete None (Inr ()),
       GitStatus (Inr conflictStatus),
       GitCommitAll None (Inr 1),
       StatusBarMessage ''committed 1 files'' 4000,
       Notice ''Committed 1 files'',
       ConsoleLog ''git obsidian message: Committed 1 files'',
       GitBranchInfo (Inr trackedBranch),
       GitCanPush (Inr True),
       GitPull (Inr 1),
       StatusBarMessage ''pulled 1 files from remote'' 4000,
       Notice ''Pulled 1 files from remote'',
       ConsoleLog ''git obsidian message: Pulled 1 files from remote'',
       GitPush (Inr 1),
       StatusBarMessage ''pushed 1 files to remote'' 4000,
       Notice ''Pushed 1 files to remote'',
       ConsoleLog ''git obsidian message: Pushed 1 files to remote'',
       SetState PluginState_idle, StatusBarDisplay],
      standalonePlugin\<lparr>gitManager := Some IsomorphicGit, state := Some PluginState_idle,
                       gitReady := True, world := 8\<rparr>)
   \<and> status conflictEnv IsomorphicGit 7 = (Inr conflictStatus, 8)
   \<and> conflicted conflictStatus = [''b.md'', ''c.md'']"
  by (simp add: createBackup_def createBackup_checks_def createBackup_commit_def
        createBackup_push_def createBackup_pushBlock_def clearConflictFile_def ensureReady_def
        init_def init_valid_def action_defs displayMessage_def Let_def truthy_def
        showInt_def showNat.simps digitChar_def toLowerCase_simps lowerChar_eval
        demo_defs conflictOutputFile_def)

text \<open>
  Claim C3, amended. In a manually triggered run of \<open>createBackup\<close> in which the status
  lists changed files, \<open>commitAll\<close> is called, on either backend and whatever the statuses
  list as conflicted. On a \<open>SimpleGit\<close> backend, if the commit succeeds, push is enabled,
  an upstream is set and commits are pending, then after the pull before the push (when
  configured) the status is queried again, and if it lists conflicts the workflow resolves
  without any call of \<open>push\<close>: it displays the error
  \<open>Cannot push. You have N conflict files\<close>, sets the state to \<open>conflicted\<close> and writes the
  conflict report for the listed paths.
\<close>

theorem manual_backup_commits_then_refuses_push:
  assumes ready: "ensureReady env p = (Inr (), e0, p1)" and gr: "gitReady p1"
    and gm: "gitManager p1 = Some g"
    and del: "vaultDelete env (getAbstractFileByPath env ''conflict-files-obsidian-git.md'' (world p1))
                (world p1) = (Inr (), w1)"
    and st1: "if g = SimpleGit then status env g w1 = (Inr s1, w2) else w2 = w1"
    and st2: "status env g w2 = (Inr s2, w3)"
    and changed: "changed s2 \<noteq> []"
  shows "GitCommitAll msg (fst (commitAll env msg g w3))
           \<in> set (eventsOf (createBackup env False msg p))
       \<and> (g = SimpleGit \<longrightarrow>
           (\<forall>n w4 info r w5 w6 k w7 s3 w8.
            commitAll env msg SimpleGit w3 = (Inr n, w4) \<longrightarrow>
            \<not> disablePush (settings p) \<longrightarrow>
            branchInfo env SimpleGit w4 = (Inr info, w5) \<longrightarrow>
            remote info = Some r \<longrightarrow> r \<noteq> [] \<longrightarrow>
            canPush env SimpleGit w5 = (Inr True, w6) \<longrightarrow>
            (if pullBeforePush (settings p) then pull env SimpleGit w6 = (Inr k, w7) else w7 = w6) \<longrightarrow>
            status env SimpleGit w7 = (Inr s3, w8) \<longrightarrow>
            conflicted s3 \<noteq> [] \<longrightarrow>
              outcomeOf (createBackup env False msg p) = Inr ()
              \<and> (pullBeforePush (settings p) \<longrightarrow>
                   GitPull (Inr k) \<in> set (eventsOf (createBackup env False msg p)))
              \<and> GitStatus (Inr s3) \<in> set (eventsOf (createBackup env False msg p))
              \<and> (\<forall>x. GitPush x \<notin> set (eventsOf (createBackup env False msg p)))
              \<and> Notice (''Cannot push. You have '' @ showNat (length (conflicted s3))
                         @ '' conflict files'')
                  \<in> set (eventsOf (createBackup env False msg p))
              \<and> ConsoleLog (''git obsidian error: Cannot push. You have ''
                             @ showNat (length (conflicted s3)) @ '' conflict files'')
                  \<in> set (eventsOf (createBackup env False msg p))
              \<and> (\<not> isMobile p \<longrightarrow>
                   StatusBarMessage (''cannot push. you have '' @ showNat (length (conflicted s3))
                                     @ '' conflict files'') 0
                     \<in> set (eventsOf (createBackup env False msg p)))
              \<and> set (showNat (length (conflicted s3))) \<subseteq> set ''0123456789''
              \<and> foldl (\<lambda>a c. 10 * a + (of_char c - 48)) 0 (showNat (length (conflicted s3)))
                  = length (conflicted s3)
              \<and> SetState PluginState_conflicted \<in> set (eventsOf (createBackup env False msg p))
              \<and> (\<exists>res. AdapterWrite ''conflict-files-obsidian-git.md''
                  (''# Conflict files'' @ [CHR 0x0A]
                   @ ''Please resolve them and commit per command (This file will be deleted before the commit).''
                   @ concat (map (\<lambda>e. CHR 0x0A
                                        # (case getAbstractFileByPath env e w8 of
                                             Some (TFile f) \<Rightarrow>
                                               ''- [['' @ fileToLinktext env (TFile f) ''/'' w8 @ '']]''
                                           | _ \<Rightarrow> ''- Not a file: '' @ e))
                               (conflicted s3))) res
                         \<in> set (eventsOf (createBackup env False msg p)))
              \<and> state (pluginOf (createBackup env False msg p)) = Some PluginState_conflicted))"
proof -
  note e0 = ensureReady_run[OF ready]
  have del': "vaultDelete env (getAbstractFileByPath env conflictOutputFile (world p1)) (world p1)
                = (Inr (), w1)"
    using del by (simp add: conflictOutputFile_def)
  have gm': "gitManager (p1\<lparr>world := w2\<rparr>) = Some g"
    and st2': "status env g (world (p1\<lparr>world := w2\<rparr>)) = (Inr s2, w3)"
    using gm st2 by simp_all
  obtain e1 where c1: "createBackup_checks env False p = (Inr True, e1, p1\<lparr>world := w2\<rparr>)"
  proof (cases "g = SimpleGit")
    case True
    with st1 gm have "status env SimpleGit w1 = (Inr s1, w2)" and "gitManager p1 = Some SimpleGit"
      by simp_all
    from manual_checks_run[OF ready gr this(2) del' this(1)] that show ?thesis by blast
  next
    case False
    with st1 have "w2 = w1" by simp
    with manual_checks_run_other[OF ready gr gm False del'] that show ?thesis by blast
  qed
  have commits: "GitCommitAll msg (fst (commitAll env msg g w3))
                   \<in> set (eventsOf (createBackup env False msg p))"
    by (rule commit_is_called[OF c1 gm' st2' changed])
  have refuses: "outcomeOf (createBackup env False msg p) = Inr ()
              \<and> (pullBeforePush (settings p) \<longrightarrow>
                   GitPull (Inr k) \<in> set (eventsOf (createBackup env False msg p)))
              \<and> GitStatus (Inr s3) \<in> set (eventsOf (createBackup env False msg p))
              \<and> (\<forall>x. GitPush x \<notin> set (eventsOf (createBackup env False msg p)))
              \<and> Notice (''Cannot push. You have '' @ showNat (length (conflicted s3))
                         @ '' conflict files'')
                  \<in> set (eventsOf (createBackup env False msg p))
              \<and> ConsoleLog (''git obsidian error: Cannot push. You have ''
                             @ showNat (length (conflicted s3)) @ '' conflict files'')
                  \<in> set (eventsOf (createBackup env False msg p))
              \<and> (\<not> isMobile p \<longrightarrow>
                   StatusBarMessage (''cannot push. you have '' @ showNat (length (conflicted s3))
                                     @ '' conflict files'') 0
                     \<in> set (eventsOf (createBackup env False msg p)))
              \<and> set (showNat (length (conflicted s3))) \<subseteq> set ''0123456789''
              \<and> foldl (\<lambda>a c. 10 * a + (of_char c - 48)) 0 (showNat (length (conflicted s3)))
                  = length (conflicted s3)
              \<and> SetState PluginState_conflicted \<in> set (eventsOf (createBackup env False msg p))
              \<and> (\<exists>res. AdapterWrite ''conflict-files-obsidian-git.md''
                  (''# Conflict files'' @ [CHR 0x0A]
                   @ ''Please resolve them and commit per command (This file will be deleted before the commit).''
                   @ concat (map (\<lambda>e. CHR 0x0A
                                        # (case getAbstractFileByPath env e w8 of
                                             Some (TFile f) \<Rightarrow>
                                               ''- [['' @ fileToLinktext env (TFile f) ''/'' w8 @ '']]''
                                           | _ \<Rightarrow> ''- Not a file: '' @ e))
                               (conflicted s3))) res
                         \<in> set (eventsOf (createBackup env False msg p)))
              \<and> state (pluginOf (createBackup env False msg p)) = Some PluginState_conflicted"
    if simple: "g = SimpleGit"
      and cm: "commitAll env msg SimpleGit w3 = (Inr n, w4)"
      and enabled: "\<not> disablePush (settings p)"
      and bi: "branchInfo env SimpleGit w4 = (Inr info, w5)"
      and tracked: "remote info = Some r" "r \<noteq> []"
      and cp: "canPush env SimpleGit w5 = (Inr True, w6)"
      and pl: "if pullBeforePush (settings p) then pull env SimpleGit w6 = (Inr k, w7) else w7 = w6"
      and st3: "status env SimpleGit w7 = (Inr s3, w8)"
      and cf: "conflicted s3 \<noteq> []"
    for n w4 info r w5 w6 k w7 s3 w8
  proof -
    let ?q = "p1\<lparr>world := w4\<rparr>"
    have gms: "gitManager p1 = Some SimpleGit" and s1: "status env SimpleGit w1 = (Inr s1, w2)"
      and gms': "gitManager (p1\<lparr>world := w2\<rparr>) = Some SimpleGit"
      and st2s: "status env SimpleGit (world (p1\<lparr>world := w2\<rparr>)) = (Inr s2, w3)"
      using simple gm st1 st2 by simp_all
    note c1s = manual_checks_run[OF ready gr gms del' s1]
    note c2 = manual_commit_run[OF gms' st2s changed cm]
    have q1: "\<not> disablePush (settings ?q)" and q2: "gitManager ?q = Some SimpleGit"
      and q3: "branchInfo env SimpleGit (world ?q) = (Inr info, w5)"
      and q4: "if pullBeforePush (settings ?q) then pull env SimpleGit w6 = (Inr k, w7) else w7 = w6"
      and q5: "truthy (remote info)"
      using enabled gms bi pl tracked e0(2) by (simp_all add: truthy_def)
    obtain opens w' where c3: "createBackup_push env ?q =
             (Inr (),
              GitBranchInfo (Inr info) # GitCanPush (Inr True)
                # (if pullBeforePush (settings ?q)
                   then GitPull (Inr k)
                          # (if k > 0
                             then displayMessage ?q (''Pulled '' @ showInt env k @ '' files from remote'') 4000
                             else [])
                   else [])
                @ GitStatus (Inr s3)
                # displayError ?q
                    (''Cannot push. You have '' @ showNat (length (conflicted s3)) @ '' conflict files'') 0
                @ SetState PluginState_conflicted # (if \<not> isMobile ?q then [StatusBarDisplay] else [])
                @ AdapterWrite conflictOutputFile (conflictReport env w8 (conflicted s3))
                    (fst (adapterWrite env conflictOutputFile (conflictReport env w8 (conflicted s3)) w8))
                # opens,
              ?q\<lparr>state := Some PluginState_conflicted, world := w'\<rparr>)"
      and opens: "\<forall>e\<in>set opens. \<exists>a b c. e = OpenLinkText a b c"
      using push_conflict_run[OF q1 q2 q3 q5 cp q4 st3 cf] by blast
    have run: "createBackup env False msg p =
             (Inr (),
              (e0 @ [VaultDelete (getAbstractFileByPath env conflictOutputFile (world p1)) (Inr ()),
                     GitStatus (Inr s1)])
              @ (GitStatus (Inr s2) # GitCommitAll msg (Inr n)
                   # displayMessage p (''Committed '' @ showInt env n @ '' files'') 4000)
              @ GitBranchInfo (Inr info) # GitCanPush (Inr True)
                # (if pullBeforePush (settings p)
                   then GitPull (Inr k)
                          # (if k > 0
                             then displayMessage p (''Pulled '' @ showInt env k @ '' files from remote'') 4000
                             else [])
                   else [])
                @ GitStatus (Inr s3)
                # displayError p
                    (''Cannot push. You have '' @ showNat (length (conflicted s3)) @ '' conflict files'') 0
                @ SetState PluginState_conflicted # (if \<not> isMobile p then [StatusBarDisplay] else [])
                @ AdapterWrite conflictOutputFile (conflictReport env w8 (conflicted s3))
                    (fst (adapterWrite env conflictOutputFile (conflictReport env w8 (conflicted s3)) w8))
                # opens,
              p1\<lparr>state := Some PluginState_conflicted, world := w'\<rparr>)"
      using c1s c2 c3 e0(2,3)
      by (simp add: createBackup_def action_defs displayMessage_def displayError_def)
    have nopush: "\<forall>x. GitPush x \<notin> set (eventsOf (createBackup env False msg p))"
      unfolding run using opens
      by (auto simp: displayMessage_def displayError_def dest!: e0(1))
    have shown: "Notice (''Cannot push. You have '' @ showNat (length (conflicted s3))
                         @ '' conflict files'')
                  \<in> set (eventsOf (createBackup env False msg p))
              \<and> ConsoleLog (''git obsidian error: Cannot push. You have ''
                             @ showNat (length (conflicted s3)) @ '' conflict files'')
                  \<in> set (eventsOf (createBackup env False msg p))
              \<and> (\<not> isMobile p \<longrightarrow>
                   StatusBarMessage (''cannot push. you have '' @ showNat (length (conflicted s3))
                                     @ '' conflict files'') 0
                     \<in> set (eventsOf (createBackup env False msg p)))"
      unfolding run
      by (simp add: displayError_def toLowerCase_simps lowerChar_eval toLowerCase_showNat)
    have calls: "(pullBeforePush (settings p) \<longrightarrow>
                   GitPull (Inr k) \<in> set (eventsOf (createBackup env False msg p)))
              \<and> GitStatus (Inr s3) \<in> set (eventsOf (createBackup env False msg p))
              \<and> SetState PluginState_conflicted \<in> set (eventsOf (createBackup env False msg p))"
      unfolding run by simp
    have written: "AdapterWrite conflictOutputFile (conflictReport env w8 (conflicted s3))
                    (fst (adapterWrite env conflictOutputFile (conflictReport env w8 (conflicted s3)) w8))
                         \<in> set (eventsOf (createBackup env False msg p))"
      unfolding run by simp
    have rest: "outcomeOf (createBackup env False msg p) = Inr ()
       \<and> state (pluginOf (createBackup env False msg p)) = Some PluginState_conflicted"
      by (simp add: run)
    show ?thesis
      using nopush shown calls rest written[unfolded conflictReport_text conflictOutputFile_def]
        showNat_digits[of "length (conflicted s3)"] showNat_value[of "length (conflicted s3)"]
      by blast
  qed
  show ?thesis
    using commits refuses by blast
qed

theorem manual_backup_commits_then_refuses_push_witness:
  "ensureReady conflictEnv simplePlugin = (Inr (), [], simplePlugin)
   \<and> gitManager simplePlugin = Some SimpleGit
   \<and> vaultDelete conflictEnv
        (getAbstractFileByPath conflictEnv ''conflict-files-obsidian-git.md'' (world simplePlugin))
        (world simplePlugin) = (Inr (), 1)
   \<and> status conflictEnv SimpleGit 1 = (Inr conflictStatus, 2)
   \<and> status conflictEnv SimpleGit 2 = (Inr conflictStatus, 3)
   \<and> changed conflictStatus = [''a.md'']
   \<and> conflicted conflictStatus = [''b.md'', ''c.md'']
   \<and> commitAll conflictEnv None SimpleGit 3 = (Inr 1, 4)
   \<and> \<not> disablePush (settings simplePlugin)
   \<and> branchInfo conflictEnv SimpleGit 4 = (Inr trackedBranch, 5)
   \<and> remote trackedBranch = Some ''origin/main''
   \<and> canPush conflictEnv SimpleGit 5 = (Inr True, 6)
   \<and> pullBeforePush (settings simplePlugin)
   \<and> pull conflictEnv SimpleGit 6 = (Inr 1, 7)
   \<and> status conflictEnv SimpleGit 7 = (Inr conflictStatus, 8)
   \<and> GitCommitAll None (Inr 1) \<in> set (eventsOf (createBackup conflictEnv False None simplePlugin))
   \<and> outcomeOf (createBackup conflictEnv False None simplePlugin) = Inr ()
   \<and> GitPull (Inr 1) \<in> set (eventsOf (createBackup conflictEnv False None simplePlugin))
   \<and> (\<forall>x. GitPush x \<notin> set (eventsOf (createBackup conflictEnv False None simplePlugin)))
   \<and> Notice ''Cannot push. You have 2 conflict files''
        \<in> set (eventsOf (createBackup conflictEnv False None simplePlugin))
   \<and> ConsoleLog ''git obsidian error: Cannot push. You have 2 conflict files''
        \<in> set (eventsOf (createBackup conflictEnv False None simplePlugin))
   \<and> StatusBarMessage ''cannot push. you have 2 conflict files'' 0
        \<in> set (eventsOf (createBackup conflictEnv False None simplePlugin))
   \<and> (\<exists>res. AdapterWrite ''conflict-files-obsidian-git.md''
              (''# Conflict files'' @ [CHR 0x0A]
               @ ''Please resolve them and commit per command (This file will be deleted before the commit).''
               @ [CHR 0x0A] @ ''- [[b.md]]'' @ [CHR 0x0A] @ ''- Not a file: c.md'') res
            \<in> set (eventsOf (createBackup conflictEnv False None simplePlugin)))
   \<and> state (pluginOf (createBackup conflictEnv False None simplePlugin)) = Some PluginState_conflicted
   \<and> createBackup conflictEnv False None simplePlugin =
       (Inr (),
        [VaultDelete None (Inr ()),
         GitStatus (Inr conflictStatus),
         GitStatus (Inr conflictStatus),
         GitCommitAll None (Inr 1),
         StatusBarMessage ''committed 1 files'' 4000,
         Notice ''Committed 1 files'',
         ConsoleLog ''git obsidian message: Committed 1 files'',
         GitBranchInfo (Inr trackedBranch),
         GitCanPush (Inr True),
         GitPull (Inr 1),
         StatusBarMessage ''pulled 1 files from remote'' 4000,
         Notice ''Pulled 1 files from remote'',
         ConsoleLog ''git obsidian message: Pulled 1 files from remote'',
         GitStatus (Inr conflictStatus),
         Notice ''Cannot push. You have 2 conflict files'',
         ConsoleLog ''git obsidian error: Cannot push. You have 2 conflict files'',
         StatusBarMessage ''cannot push. you have 2 conflict files'' 0,
         SetState PluginState_conflicted, StatusBarDisplay,
         AdapterWrite ''conflict-files-obsidian-git.md''
           (''# Conflict files'' @ [CHR 0x0A]
               @ ''Please resolve them and commit per command (This file will be deleted before the commit).''
               @ [CHR 0x0A] @ ''- [[b.md]]'' @ [CHR 0x0A] @ ''- Not a file: c.md'') (Inr ()),
         OpenLinkText ''conflict-files-obsidian-git.md'' ''/'' True],
        simplePlugin\<lparr>state := Some PluginState_conflicted, world := 9\<rparr>)"
proof -
  have h1: "ensureReady conflictEnv simplePlugin = (Inr (), [], simplePlugin)"
    and h2: "gitReady simplePlugin"
    and h3: "gitManager simplePlugin = Some SimpleGit"
    and h4: "vaultDelete conflictEnv
               (getAbstractFileByPath conflictEnv ''conflict-files-obsidian-git.md'' (world simplePlugin))
               (world simplePlugin) = (Inr (), 1)"
    and h5: "status conflictEnv SimpleGit 1 = (Inr conflictStatus, 2)"
    and h6: "status conflictEnv SimpleGit 2 = (Inr conflictStatus, 3)"
    and h7: "changed conflictStatus = [''a.md'']"
    and h8: "conflicted conflictStatus = [''b.md'', ''c.md'']"
    by (simp_all add: ensureReady_def action_defs demo_defs)
  have k1: "commitAll conflictEnv None SimpleGit 3 = (Inr 1, 4)"
    and k2: "\<not> disablePush (settings simplePlugin)"
    and k3: "branchInfo conflictEnv SimpleGit 4 = (Inr trackedBranch, 5)"
    and k4: "remote trackedBranch = Some ''origin/main''"
    and k5: "canPush conflictEnv SimpleGit 5 = (Inr True, 6)"
    and k6: "pullBeforePush (settings simplePlugin)"
    and k7: "pull conflictEnv SimpleGit 6 = (Inr 1, 7)"
    and k8: "status conflictEnv SimpleGit 7 = (Inr conflictStatus, 8)"
    and f1: "\<not> isMobile simplePlugin"
    by (simp_all add: demo_defs)
  have h5': "if SimpleGit = SimpleGit then status conflictEnv SimpleGit 1 = (Inr conflictStatus, 2)
             else (2::nat) = 1"
    using h5 by simp
  have h7': "changed conflictStatus \<noteq> []" and h8': "conflicted conflictStatus \<noteq> []"
    and k4': "''origin/main'' \<noteq> []"
    by (simp_all add: h7 h8)
  have k67: "if pullBeforePush (settings simplePlugin)
             then pull conflictEnv SimpleGit 6 = (Inr 1, 7) else (7::nat) = 6"
    using k6 k7 by simp
  have two: "showNat (length (conflicted conflictStatus)) = ''2''"
    by (simp add: h8 showNat.simps digitChar_def)
  have look: "getAbstractFileByPath conflictEnv ''b.md'' 8 = Some (TFile ''b.md'')"
    "getAbstractFileByPath conflictEnv ''c.md'' 8 = None"
    "fileToLinktext conflictEnv (TFile ''b.md'') ''/'' 8 = ''b.md''"
    by (simp_all add: demo_defs)
  note main = manual_backup_commits_then_refuses_push[OF h1 h2 h3 h4 h5' h6 h7', of None]
  have a: "GitCommitAll None (Inr 1) \<in> set (eventsOf (createBackup conflictEnv False None simplePlugin))"
    using main[THEN conjunct1] k1 by simp
  note b = main[THEN conjunct2, rule_format, OF refl k1 k2 k3 k4 k4' k5 k67 k8 h8', unfolded two]
  have b1: "outcomeOf (createBackup conflictEnv False None simplePlugin) = Inr ()"
    and b2: "GitPull (Inr 1) \<in> set (eventsOf (createBackup conflictEnv False None simplePlugin))"
    and b3: "\<forall>x. GitPush x \<notin> set (eventsOf (createBackup conflictEnv False None simplePlugin))"
    and b7: "state (pluginOf (createBackup conflictEnv False None simplePlugin))
               = Some PluginState_conflicted"
    using b k6 by blast+
  have b4: "Notice ''Cannot push. You have 2 conflict files''
              \<in> set (eventsOf (createBackup conflictEnv False None simplePlugin))"
    and b5: "ConsoleLog ''git obsidian error: Cannot push. You have 2 conflict files''
               \<in> set (eventsOf (createBackup conflictEnv False None simplePlugin))"
    and b6: "StatusBarMessage ''cannot push. you have 2 conflict files'' 0
               \<in> set (eventsOf (createBackup conflictEnv False None simplePlugin))"
    using b f1 by simp_all
  have b8: "\<exists>res. AdapterWrite ''conflict-files-obsidian-git.md''
              (''# Conflict files'' @ [CHR 0x0A]
               @ ''Please resolve them and commit per command (This file will be deleted before the commit).''
               @ [CHR 0x0A] @ ''- [[b.md]]'' @ [CHR 0x0A] @ ''- Not a file: c.md'') res
            \<in> set (eventsOf (createBackup conflictEnv False None simplePlugin))"
    using b by (simp add: h8 look)
  have b9: "createBackup conflictEnv False None simplePlugin =
       (Inr (),
        [VaultDelete None (Inr ()),
         GitStatus (Inr conflictStatus),
         GitStatus (Inr conflictStatus),
         GitCommitAll None (Inr 1),
         StatusBarMessage ''committed 1 files'' 4000,
         Notice ''Committed 1 files'',
         ConsoleLog ''git obsidian message: Committed 1 files'',
         GitBranchInfo (Inr trackedBranch),
         GitCanPush (Inr True),
         GitPull (Inr 1),
         StatusBarMessage ''pulled 1 files from remote'' 4000,
         Notice ''Pulled 1 files from remote'',
         ConsoleLog ''git obsidian message: Pulled 1 files from remote'',
         GitStatus (Inr conflictStatus),
         Notice ''Cannot push. You have 2 conflict files'',
         ConsoleLog ''git obsidian error: Cannot push. You have 2 conflict files'',
         StatusBarMessage ''cannot push. you have 2 conflict files'' 0,
         SetState PluginState_conflicted, StatusBarDisplay,
         AdapterWrite ''conflict-files-obsidian-git.md''
           (''# Conflict files'' @ [CHR 0x0A]
               @ ''Please resolve them and commit per command (This file will be deleted before the commit).''
               @ [CHR 0x0A] @ ''- [[b.md]]'' @ [CHR 0x0A] @ ''- Not a file: c.md'') (Inr ()),
         OpenLinkText ''conflict-files-obsidian-git.md'' ''/'' True],
        simplePlugin\<lparr>state := Some PluginState_conflicted, world := 9\<rparr>)"
    by (simp add: createBackup_def createBackup_checks_def createBackup_commit_def
          createBackup_push_def createBackup_pushBlock_def clearConflictFile_def ensureReady_def
          init_def init_valid_def handleConflict_def writeAndOpenFile_def conflictReport_def
          conflictLine_def action_defs displayMessage_def displayError_def Let_def truthy_def
          showInt_def showNat.simps digitChar_def toLowerCase_simps lowerChar_eval
          demo_defs conflictOutputFile_def)
  show ?thesis
    by (intro conjI) (fact h1 h3 h4 h5 h6 h7 h8 k1 k2 k3 k4 k5 k6 k7 k8 a b1 b2 b3 b4 b5 b6 b7 b8 b9)+
qed

text \<open>
  With push enabled, the first backend call of the push part is \<open>branchInfo\<close>.
\<close>

lemma createBackup_push_asks_branchInfo:
  assumes "\<not> disablePush (settings q)" and "gitManager q = Some g"
  shows "GitBranchInfo (fst (branchInfo env g (world q))) \<in> set (eventsOf (createBackup_push env q))"
proof -
  have "GitBranchInfo (fst (branchInfo env g (world q)))
          \<in> set (eventsOf (gitCall (branchInfo env) GitBranchInfo q))"
    using assms by (simp add: gitCall_def split: prod.splits)
  also have "\<dots> \<subseteq> set (eventsOf (createBackup_pushBlock env q))"
    unfolding createBackup_pushBlock_def by (rule bindA_events_prefix)
  also have "\<dots> = set (eventsOf (ifA (\<lambda>p. \<not> disablePush (settings p))
                              (createBackup_pushBlock env) (returnA True) q))"
    using assms by (simp add: ifA_def)
  also have "\<dots> \<subseteq> set (eventsOf (createBackup_push env q))"
    unfolding createBackup_push_def by (rule bindA_events_prefix)
  finally show ?thesis .
qed

text \<open>
  Claim C5. In a run of \<open>createBackup\<close> that passes the checks and whose status lists no
  changed file, the run is the checks, the status query, the effects of the message
  \<open>No changes to commit\<close> (status bar unless mobile, notice unless pop-ups are disabled,
  console line) and then the push part; \<open>commitAll\<close> is never called; and when push is not
  disabled the push part is entered, its first step being the \<open>branchInfo\<close> query.
\<close>

theorem backup_without_changes:
  assumes checks: "createBackup_checks env a p = (Inr True, e1, p1)"
    and gm: "gitManager p1 = Some g"
    and st: "status env g (world p1) = (Inr st, w)"
    and unchanged: "changed st = []"
  shows "createBackup env a msg p =
           (case createBackup_push env (p1\<lparr>world := w\<rparr>) of
              (r, e3, p') \<Rightarrow>
                (r, e1 @ GitStatus (Inr st)
                       # (if \<not> isMobile p then [StatusBarMessage ''no changes to commit'' 4000] else [])
                       @ (if \<not> disablePopups (settings p) then [Notice ''No changes to commit''] else [])
                       @ ConsoleLog ''git obsidian message: No changes to commit'' # e3, p'))
       \<and> (\<forall>m x. GitCommitAll m x \<notin> set (eventsOf (createBackup env a msg p)))
       \<and> ConsoleLog ''git obsidian message: No changes to commit''
           \<in> set (eventsOf (createBackup env a msg p))
       \<and> (\<not> disablePopups (settings p) \<longrightarrow>
            Notice ''No changes to commit'' \<in> set (eventsOf (createBackup env a msg p)))
       \<and> (\<not> isMobile p \<longrightarrow>
            StatusBarMessage ''no changes to commit'' 4000 \<in> set (eventsOf (createBackup env a msg p)))
       \<and> (\<not> disablePush (settings p) \<longrightarrow>
            GitBranchInfo (fst (branchInfo env g w)) \<in> set (eventsOf (createBackup env a msg p)))"
proof -
  note c = createBackup_checks_run[OF checks]
  obtain r e3 p' where push: "createBackup_push env (p1\<lparr>world := w\<rparr>) = (r, e3, p')"
    by (metis prod_cases3)
  have run: "createBackup env a msg p =
               (r, e1 @ GitStatus (Inr st)
                       # (if \<not> isMobile p then [StatusBarMessage ''no changes to commit'' 4000] else [])
                       @ (if \<not> disablePopups (settings p) then [Notice ''No changes to commit''] else [])
                       @ ConsoleLog ''git obsidian message: No changes to commit'' # e3, p')"
    using checks gm st unchanged push c(2,3)
    by (simp add: createBackup_def createBackup_commit_def action_defs displayMessage_def
          toLowerCase_simps lowerChar_eval)
  have e3: "\<And>m x. GitCommitAll m x \<notin> set e3"
    using emitsOnlyD[OF createBackup_push_events push] by blast
  have nocommit: "\<forall>m x. GitCommitAll m x \<notin> set (eventsOf (createBackup env a msg p))"
    unfolding run using e3 by (auto dest!: c(1))
  have asks: "\<not> disablePush (settings p) \<longrightarrow>
            GitBranchInfo (fst (branchInfo env g w)) \<in> set (eventsOf (createBackup env a msg p))"
    using createBackup_push_asks_branchInfo[of "p1\<lparr>world := w\<rparr>" g env] gm c(2)
    by (simp add: run push)
  have shown: "ConsoleLog ''git obsidian message: No changes to commit''
           \<in> set (eventsOf (createBackup env a msg p))
       \<and> (\<not> disablePopups (settings p) \<longrightarrow>
            Notice ''No changes to commit'' \<in> set (eventsOf (createBackup env a msg p)))
       \<and> (\<not> isMobile p \<longrightarrow>
            StatusBarMessage ''no changes to commit'' 4000 \<in> set (eventsOf (createBackup env a msg p)))"
    unfolding run by simp
  have first: "createBackup env a msg p =
           (case createBackup_push env (p1\<lparr>world := w\<rparr>) of
              (r, e3, p') \<Rightarrow>
                (r, e1 @ GitStatus (Inr st)
                       # (if \<not> isMobile p then [StatusBarMessage ''no changes to commit'' 4000] else [])
                       @ (if \<not> disablePopups (settings p) then [Notice ''No changes to commit''] else [])
                       @ ConsoleLog ''git obsidian message: No changes to commit'' # e3, p'))"
    by (simp add: run push)
  show ?thesis
    using first nocommit shown asks by blast
qed

theorem backup_without_changes_witness:
  "createBackup_checks idleEnv False simplePlugin =
     (Inr True, [VaultDelete None (Inr ()), GitStatus (Inr cleanStatus)], simplePlugin\<lparr>world := 2\<rparr>)
   \<and> status idleEnv SimpleGit 2 = (Inr cleanStatus, 3)
   \<and> changed cleanStatus = []
   \<and> \<not> disablePush (settings simplePlugin)
   \<and> (\<forall>m x. GitCommitAll m x \<notin> set (eventsOf (createBackup idleEnv False None simplePlugin)))
   \<and> ConsoleLog ''git obsidian message: No changes to commit''
        \<in> set (eventsOf (createBackup idleEnv False None simplePlugin))
   \<and> Notice ''No changes to commit'' \<in> set (eventsOf (createBackup idleEnv False None simplePlugin))
   \<and> StatusBarMessage ''no changes to commit'' 4000
        \<in> set (eventsOf (createBackup idleEnv False None simplePlugin))
   \<and> GitBranchInfo (Inr trackedBranch) \<in> set (eventsOf (createBackup idleEnv False None simplePlugin))"
proof -
  have h1: "createBackup_checks idleEnv False simplePlugin =
     (Inr True, [VaultDelete None (Inr ()), GitStatus (Inr cleanStatus)], simplePlugin\<lparr>world := 2\<rparr>)"
    by (simp add: createBackup_checks_def ensureReady_def clearConflictFile_def action_defs Let_def
          demo_defs conflictOutputFile_def)
  have h2: "gitManager (simplePlugin\<lparr>world := 2\<rparr>) = Some SimpleGit"
    and g3: "status idleEnv SimpleGit 2 = (Inr cleanStatus, 3)"
    and h4: "changed cleanStatus = []"
    and h5: "\<not> disablePush (settings simplePlugin)"
    and h6: "fst (branchInfo idleEnv SimpleGit 3) = Inr trackedBranch"
    and f1: "\<not> disablePopups (settings simplePlugin)" and f2: "\<not> isMobile simplePlugin"
    by (simp_all add: demo_defs)
  have h3: "status idleEnv SimpleGit (world (simplePlugin\<lparr>world := 2\<rparr>)) = (Inr cleanStatus, 3)"
    using g3 by simp
  note main = backup_without_changes[OF h1 h2 h3 h4, of None, THEN conjunct2]
  have a: "\<forall>m x. GitCommitAll m x \<notin> set (eventsOf (createBackup idleEnv False None simplePlugin))"
    and b: "ConsoleLog ''git obsidian message: No changes to commit''
              \<in> set (eventsOf (createBackup idleEnv False None simplePlugin))"
    and c: "Notice ''No changes to commit'' \<in> set (eventsOf (createBackup idleEnv False None simplePlugin))"
    and d: "StatusBarMessage ''no changes to commit'' 4000
              \<in> set (eventsOf (createBackup idleEnv False None simplePlugin))"
    using main f1 f2 by blast+
  have e: "GitBranchInfo (Inr trackedBranch)
             \<in> set (eventsOf (createBackup idleEnv False None simplePlugin))"
    using main h5 unfolding h6 by blast
  show ?thesis
    by (intro conjI) (fact h1 g3 h4 h5 a b c d e)+
qed

text \<open>
  Claim C6. In a run of \<open>createBackup\<close> with push enabled that reaches the \<open>branchInfo\<close>
  query, if the branch info has no \<open>remote\<close>, what follows the query is the notice and
  the console line of the error
  \<open>Did not push. No upstream branch is set! See README for instructions\<close>, its status-bar
  message with timeout 10000 unless the app is mobile, and the change of state to
  \<open>idle\<close>; the workflow resolves and \<open>push\<close> is never called.
\<close>

theorem backup_without_upstream:
  assumes checks: "createBackup_checks env a p = (Inr True, e1, p1)"
    and commit: "createBackup_commit env msg p1 = (Inr (), e2, p2)"
    and enabled: "\<not> disablePush (settings p)"
    and gm: "gitManager p2 = Some g"
    and bi: "branchInfo env g (world p2) = (Inr info, w)"
    and absent: "remote info = None"
  shows "createBackup env a msg p =
           (Inr (),
            e1 @ e2 @ GitBranchInfo (Inr info)
               # Notice ''Did not push. No upstream branch is set! See README for instructions''
               # ConsoleLog ''git obsidian error: Did not push. No upstream branch is set! See README for instructions''
               # (if \<not> isMobile p
                  then [StatusBarMessage ''did not push. no upstream branch is set! see readme for instructions'' 10000]
                  else [])
               @ SetState PluginState_idle # (if \<not> isMobile p then [StatusBarDisplay] else []),
            p2\<lparr>world := w, state := Some PluginState_idle\<rparr>)
       \<and> Notice ''Did not push. No upstream branch is set! See README for instructions''
           \<in> set (eventsOf (createBackup env a msg p))
       \<and> ConsoleLog ''git obsidian error: Did not push. No upstream branch is set! See README for instructions''
           \<in> set (eventsOf (createBackup env a msg p))
       \<and> (\<forall>x. GitPush x \<notin> set (eventsOf (createBackup env a msg p)))
       \<and> state (pluginOf (createBackup env a msg p)) = Some PluginState_idle"
proof -
  note c = createBackup_checks_run[OF checks]
  note d = createBackup_commit_run[OF commit]
  have run: "createBackup env a msg p =
           (Inr (),
            e1 @ e2 @ GitBranchInfo (Inr info)
               # Notice ''Did not push. No upstream branch is set! See README for instructions''
               # ConsoleLog ''git obsidian error: Did not push. No upstream branch is set! See README for instructions''
               # (if \<not> isMobile p
                  then [StatusBarMessage ''did not push. no upstream branch is set! see readme for instructions'' 10000]
                  else [])
               @ SetState PluginState_idle # (if \<not> isMobile p then [StatusBarDisplay] else []),
            p2\<lparr>world := w, state := Some PluginState_idle\<rparr>)"
    using checks commit enabled gm bi absent c(2,3) d(2,3)
    by (simp add: createBackup_def createBackup_push_def createBackup_pushBlock_def action_defs
          displayError_def truthy_def toLowerCase_simps lowerChar_eval)
  have nopush: "\<forall>x. GitPush x \<notin> set (eventsOf (createBackup env a msg p))"
    unfolding run by (auto dest!: c(1) d(1))
  have shown: "Notice ''Did not push. No upstream branch is set! See README for instructions''
           \<in> set (eventsOf (createBackup env a msg p))
       \<and> ConsoleLog ''git obsidian error: Did not push. No upstream branch is set! See README for instructions''
           \<in> set (eventsOf (createBackup env a msg p))
       \<and> state (pluginOf (createBackup env a msg p)) = Some PluginState_idle"
    unfolding run by simp
  show ?thesis
    using run nopush shown by blast
qed

theorem backup_without_upstream_witness:
  "createBackup_checks noUpstreamEnv True simplePlugin =
     (Inr True, [GitStatus (Inr cleanStatus)], simplePlugin\<lparr>world := 1\<rparr>)
   \<and> createBackup_commit noUpstreamEnv None (simplePlugin\<lparr>world := 1\<rparr>) =
       (Inr (),
        [GitStatus (Inr cleanStatus), StatusBarMessage ''no changes to commit'' 4000,
         Notice ''No changes to commit'', ConsoleLog ''git obsidian message: No changes to commit''],
        simplePlugin\<lparr>world := 2\<rparr>)
   \<and> \<not> disablePush (settings simplePlugin)
   \<and> branchInfo noUpstreamEnv SimpleGit 2 = (Inr untrackedBranch, 3)
   \<and> remote untrackedBranch = None
   \<and> createBackup noUpstreamEnv True None simplePlugin =
       (Inr (),
        [GitStatus (Inr cleanStatus),
         GitStatus (Inr cleanStatus), StatusBarMessage ''no changes to commit'' 4000,
         Notice ''No changes to commit'', ConsoleLog ''git obsidian message: No changes to commit'',
         GitBranchInfo (Inr untrackedBranch),
         Notice ''Did not push. No upstream branch is set! See README for instructions'',
         ConsoleLog ''git obsidian error: Did not push. No upstream branch is set! See README for instructions'',
         StatusBarMessage ''did not push. no upstream branch is set! see readme for instructions'' 10000,
         SetState PluginState_idle, StatusBarDisplay],
        simplePlugin\<lparr>world := 3, state := Some PluginState_idle\<rparr>)
   \<and> (\<forall>x. GitPush x \<notin> set (eventsOf (createBackup noUpstreamEnv True None simplePlugin)))"
proof -
  have h1: "createBackup_checks noUpstreamEnv True simplePlugin =
     (Inr True, [GitStatus (Inr cleanStatus)], simplePlugin\<lparr>world := 1\<rparr>)"
    by (simp add: createBackup_checks_def ensureReady_def action_defs demo_defs)
  have h2: "createBackup_commit noUpstreamEnv None (simplePlugin\<lparr>world := 1\<rparr>) =
       (Inr (),
        [GitStatus (Inr cleanStatus), StatusBarMessage ''no changes to commit'' 4000,
         Notice ''No changes to commit'', ConsoleLog ''git obsidian message: No changes to commit''],
        simplePlugin\<lparr>world := 2\<rparr>)"
    by (simp add: createBackup_commit_def action_defs displayMessage_def demo_defs
          toLowerCase_simps lowerChar_eval)
  have h3: "\<not> disablePush (settings simplePlugin)"
    and h4: "gitManager (simplePlugin\<lparr>world := 2\<rparr>) = Some SimpleGit"
    and g5: "branchInfo noUpstreamEnv SimpleGit 2 = (Inr untrackedBranch, 3)"
    and h6: "remote untrackedBranch = None"
    and f1: "\<not> isMobile simplePlugin"
    by (simp_all add: demo_defs)
  have h5: "branchInfo noUpstreamEnv SimpleGit (world (simplePlugin\<lparr>world := 2\<rparr>))
               = (Inr untrackedBranch, 3)"
    using g5 by simp
  note main = backup_without_upstream[OF h1 h2 h3 h4 h5 h6]
  have a: "createBackup noUpstreamEnv True None simplePlugin =
       (Inr (),
        [GitStatus (Inr cleanStatus),
         GitStatus (Inr cleanStatus), StatusBarMessage ''no changes to commit'' 4000,
         Notice ''No changes to commit'', ConsoleLog ''git obsidian message: No changes to commit'',
         GitBranchInfo (Inr untrackedBranch),
         Notice ''Did not push. No upstream branch is set! See README for instructions'',
         ConsoleLog ''git obsidian error: Did not push. No upstream branch is set! See README for instructions'',
         StatusBarMessage ''did not push. no upstream branch is set! see readme for instructions'' 10000,
         SetState PluginState_idle, StatusBarDisplay],
        simplePlugin\<lparr>world := 3, state := Some PluginState_idle\<rparr>)"
    using main[THEN conjunct1] f1 by simp
  have b: "\<forall>x. GitPush x \<notin> set (eventsOf (createBackup noUpstreamEnv True None simplePlugin))"
    using main by blast
  show ?thesis
    by (intro conjI) (fact h1 h2 h3 g5 h6 a b)+
qed

text \<open>
  The push is guarded: the parts before the push block call neither \<open>push\<close> nor
  \<open>canPush\<close>, and inside the block every path to \<open>push\<close> passes the true branch of the
  \<open>canPush\<close> test.
\<close>

lemma createBackup_pushBlock_guarded: "pushGuarded (createBackup_pushBlock env)"
  unfolding createBackup_pushBlock_def
proof (rule pushGuarded_after_quiet)
  show "emitsOnly notPush (gitCall (branchInfo env) GitBranchInfo)"
    by (rule emitsOnly_gitCall) simp
next
  fix info :: BranchInfo
  have no_upstream: "emitsOnly notPush
          (thenA (displayErrorA
                    ''Did not push. No upstream branch is set! See README for instructions'' 10000)
             (thenA (setState PluginState_idle) (returnA False)))"
    by (intro emitsOnly_intros; simp)
  have nothing_pending: "emitsOnly notPush
          (thenA (displayMessageA ''No changes to push'' 4000) (returnA True))"
    by (intro emitsOnly_intros; simp)
  show "pushGuarded
          (if \<not> truthy (remote info) then
             thenA (displayErrorA
                      ''Did not push. No upstream branch is set! See README for instructions'' 10000)
               (thenA (setState PluginState_idle) (returnA False))
           else
             bindA (gitCall (canPush env) GitCanPush) (\<lambda>pending.
               if pending then
                 thenA (ifA (\<lambda>p. pullBeforePush (settings p))
                          (bindA (gitCall (pull env) GitPull) (\<lambda>pulledFilesLength.
                             if pulledFilesLength > 0 then
                               displayMessageA
                                 (''Pulled '' @ showInt env pulledFilesLength @ '' files from remote'') 4000
                             else returnA ()))
                          (returnA ()))
                (bindA (ifA (\<lambda>p. gitManager p = Some SimpleGit)
                          (bindA (gitCall (status env) GitStatus) (\<lambda>st. returnA (Some st)))
                          (returnA None)) (\<lambda>checked.
                   case checked of
                     Some st \<Rightarrow>
                       if length (conflicted st) > 0 then
                         thenA (displayErrorA
                                  (''Cannot push. You have '' @ showNat (length (conflicted st))
                                   @ '' conflict files'') 0)
                        (thenA (detached (handleConflict env (conflicted st)))
                               (returnA False))
                       else
                         bindA (gitCall (push env) GitPush) (\<lambda>pushedFiles.
                           thenA (displayMessageA
                                    (''Pushed '' @ showInt env pushedFiles @ '' files to remote'') 4000)
                                 (returnA True))
                   | None \<Rightarrow>
                       bindA (gitCall (push env) GitPush) (\<lambda>pushedFiles.
                         thenA (displayMessageA
                                  (''Pushed '' @ showInt env pushedFiles @ '' files to remote'') 4000)
                               (returnA True))))
               else
                 thenA (displayMessageA ''No changes to push'' 4000) (returnA True)))"
    by (intro pushGuarded_if pushGuarded_quiet[OF no_upstream] pushGuarded_canPush[OF nothing_pending])
qed

lemma createBackup_push_guarded: "pushGuarded (createBackup_push env)"
  unfolding createBackup_push_def
proof (rule pushGuarded_before_quiet)
  show "pushGuarded (ifA (\<lambda>p. \<not> disablePush (settings p)) (createBackup_pushBlock env) (returnA True))"
    by (intro pushGuarded_ifA createBackup_pushBlock_guarded pushGuarded_quiet emitsOnly_returnA)
next
  fix goOn :: bool
  show "emitsOnly notPush (if goOn then setState PluginState_idle else returnA ())"
    by (intro emitsOnly_intros; simp)
qed

lemma createBackup_guarded: "pushGuarded (createBackup env a msg)"
  unfolding createBackup_def
proof (rule pushGuarded_after_quiet)
  show "emitsOnly notPush (createBackup_checks env a)"
    by (rule emitsOnly_mono[OF createBackup_checks_events notPush_of_not_call])
next
  fix goOn :: bool
  have rest: "pushGuarded (thenA (createBackup_commit env msg) (createBackup_push env))"
    unfolding thenA_def
    by (intro pushGuarded_after_quiet createBackup_push_guarded
          emitsOnly_mono[OF createBackup_commit_events notPush_of_not_pushPhase])
  show "pushGuarded (if goOn then thenA (createBackup_commit env msg) (createBackup_push env)
                     else returnA ())"
    by (rule pushGuarded_if[OF rest pushGuarded_quiet[OF emitsOnly_returnA]])
qed

lemma backup_not_pending_run:
  assumes checks: "createBackup_checks env a p = (Inr True, e1, p1)"
    and commit: "createBackup_commit env msg p1 = (Inr (), e2, p2)"
    and enabled: "\<not> disablePush (settings p)"
    and gm: "gitManager p2 = Some g"
    and bi: "branchInfo env g (world p2) = (Inr info, w3)"
    and tracked: "truthy (remote info)"
    and cp: "canPush env g w3 = (Inr False, w4)"
  shows "createBackup env a msg p =
              (Inr (),
               e1 @ e2 @ GitBranchInfo (Inr info) # GitCanPush (Inr False)
                  # displayMessage p ''No changes to push'' 4000
                  @ SetState PluginState_idle # (if \<not> isMobile p then [StatusBarDisplay] else []),
               p2\<lparr>world := w4, state := Some PluginState_idle\<rparr>)
         \<and> (\<forall>x. GitPull x \<notin> set (eventsOf (createBackup env a msg p)))
         \<and> (\<forall>x. GitPush x \<notin> set (eventsOf (createBackup env a msg p)))"
proof -
  note c = createBackup_checks_run[OF checks]
  note d = createBackup_commit_run[OF commit]
  have run: "createBackup env a msg p =
              (Inr (),
               e1 @ e2 @ GitBranchInfo (Inr info) # GitCanPush (Inr False)
                  # displayMessage p ''No changes to push'' 4000
                  @ SetState PluginState_idle # (if \<not> isMobile p then [StatusBarDisplay] else []),
               p2\<lparr>world := w4, state := Some PluginState_idle\<rparr>)"
    using checks commit enabled gm bi tracked cp c(2,3) d(2,3)
    by (simp add: createBackup_def createBackup_push_def createBackup_pushBlock_def action_defs
          displayMessage_def)
  have "\<forall>x. GitPull x \<notin> set (eventsOf (createBackup env a msg p))"
    and "\<forall>x. GitPush x \<notin> set (eventsOf (createBackup env a msg p))"
    unfolding run by (auto simp: displayMessage_def dest!: c(1) d(1))
  with run show ?thesis by simp
qed

text \<open>
  Claim C7. In every run of \<open>createBackup\<close>, a call of \<open>push\<close> occurs only if \<open>canPush\<close>
  has returned true. In a run that reaches the \<open>canPush\<close> check of the push part and in
  which \<open>canPush\<close> returns false, what follows is the effects of the message
  \<open>No changes to push\<close> (status bar unless mobile, notice unless pop-ups are disabled,
  console line) and the change of state to \<open>idle\<close>; the run has no call of \<open>pull\<close> and none
  of \<open>push\<close>, and resolves.
\<close>

theorem backup_pushes_only_when_pending:
  "((\<exists>x. GitPush x \<in> set (eventsOf (createBackup env a msg p)))
      \<longrightarrow> GitCanPush (Inr True) \<in> set (eventsOf (createBackup env a msg p)))
   \<and> (\<forall>e1 p1 e2 p2 g info r w3 w4.
        createBackup_checks env a p = (Inr True, e1, p1) \<longrightarrow>
        createBackup_commit env msg p1 = (Inr (), e2, p2) \<longrightarrow>
        \<not> disablePush (settings p) \<longrightarrow>
        gitManager p2 = Some g \<longrightarrow>
        branchInfo env g (world p2) = (Inr info, w3) \<longrightarrow>
        remote info = Some r \<longrightarrow> r \<noteq> [] \<longrightarrow>
        canPush env g w3 = (Inr False, w4) \<longrightarrow>
          createBackup env a msg p =
            (Inr (),
             e1 @ e2 @ GitBranchInfo (Inr info) # GitCanPush (Inr False)
                # (if \<not> isMobile p then [StatusBarMessage ''no changes to push'' 4000] else [])
                @ (if \<not> disablePopups (settings p) then [Notice ''No changes to push''] else [])
                @ ConsoleLog ''git obsidian message: No changes to push''
                # SetState PluginState_idle # (if \<not> isMobile p then [StatusBarDisplay] else []),
             p2\<lparr>world := w4, state := Some PluginState_idle\<rparr>)
          \<and> ConsoleLog ''git obsidian message: No changes to push''
              \<in> set (eventsOf (createBackup env a msg p))
          \<and> (\<not> disablePopups (settings p) \<longrightarrow>
               Notice ''No changes to push'' \<in> set (eventsOf (createBackup env a msg p)))
          \<and> (\<forall>x. GitPull x \<notin> set (eventsOf (createBackup env a msg p)))
          \<and> (\<forall>x. GitPush x \<notin> set (eventsOf (createBackup env a msg p))))"
proof -
  have guard: "(\<exists>x. GitPush x \<in> set (eventsOf (createBackup env a msg p)))
      \<longrightarrow> GitCanPush (Inr True) \<in> set (eventsOf (createBackup env a msg p))"
    using createBackup_guarded[of env a msg] unfolding pushGuarded_def by blast
  have idle: "createBackup env a msg p =
            (Inr (),
             e1 @ e2 @ GitBranchInfo (Inr info) # GitCanPush (Inr False)
                # (if \<not> isMobile p then [StatusBarMessage ''no changes to push'' 4000] else [])
                @ (if \<not> disablePopups (settings p) then [Notice ''No changes to push''] else [])
                @ ConsoleLog ''git obsidian message: No changes to push''
                # SetState PluginState_idle # (if \<not> isMobile p then [StatusBarDisplay] else []),
             p2\<lparr>world := w4, state := Some PluginState_idle\<rparr>)
          \<and> ConsoleLog ''git obsidian message: No changes to push''
              \<in> set (eventsOf (createBackup env a msg p))
          \<and> (\<not> disablePopups (settings p) \<longrightarrow>
               Notice ''No changes to push'' \<in> set (eventsOf (createBackup env a msg p)))
          \<and> (\<forall>x. GitPull x \<notin> set (eventsOf (createBackup env a msg p)))
          \<and> (\<forall>x. GitPush x \<notin> set (eventsOf (createBackup env a msg p)))"
    if checks: "createBackup_checks env a p = (Inr True, e1, p1)"
      and commit: "createBackup_commit env msg p1 = (Inr (), e2, p2)"
      and enabled: "\<not> disablePush (settings p)"
      and gm: "gitManager p2 = Some g"
      and bi: "branchInfo env g (world p2) = (Inr info, w3)"
      and tracked: "remote info = Some r" "r \<noteq> []"
      and cp: "canPush env g w3 = (Inr False, w4)"
    for e1 p1 e2 p2 g info r w3 w4
  proof -
    have tr: "truthy (remote info)"
      using tracked by (simp add: truthy_def)
    note old = backup_not_pending_run[OF checks commit enabled gm bi tr cp]
    have run: "createBackup env a msg p =
            (Inr (),
             e1 @ e2 @ GitBranchInfo (Inr info) # GitCanPush (Inr False)
                # (if \<not> isMobile p then [StatusBarMessage ''no changes to push'' 4000] else [])
                @ (if \<not> disablePopups (settings p) then [Notice ''No changes to push''] else [])
                @ ConsoleLog ''git obsidian message: No changes to push''
                # SetState PluginState_idle # (if \<not> isMobile p then [StatusBarDisplay] else []),
             p2\<lparr>world := w4, state := Some PluginState_idle\<rparr>)"
      using old[THEN conjunct1]
      by (simp add: displayMessage_def toLowerCase_simps lowerChar_eval)
    have shown: "ConsoleLog ''git obsidian message: No changes to push''
              \<in> set (eventsOf (createBackup env a msg p))
          \<and> (\<not> disablePopups (settings p) \<longrightarrow>
               Notice ''No changes to push'' \<in> set (eventsOf (createBackup env a msg p)))"
      unfolding run by simp
    show ?thesis
      using run shown old[THEN conjunct2] by blast
  qed
  show ?thesis
    using guard idle by blast
qed

theorem backup_pushes_only_when_pending_witness:
  "createBackup_checks idleEnv True simplePlugin =
     (Inr True, [GitStatus (Inr cleanStatus)], simplePlugin\<lparr>world := 1\<rparr>)
   \<and> createBackup_commit idleEnv None (simplePlugin\<lparr>world := 1\<rparr>) =
       (Inr (),
        [GitStatus (Inr cleanStatus), StatusBarMessage ''no changes to commit'' 4000,
         Notice ''No changes to commit'', ConsoleLog ''git obsidian message: No changes to commit''],
        simplePlugin\<lparr>world := 2\<rparr>)
   \<and> \<not> disablePush (settings simplePlugin)
   \<and> branchInfo idleEnv SimpleGit 2 = (Inr trackedBranch, 3)
   \<and> remote trackedBranch = Some ''origin/main''
   \<and> canPush idleEnv SimpleGit 3 = (Inr False, 4)
   \<and> createBackup idleEnv True None simplePlugin =
       (Inr (),
        [GitStatus (Inr cleanStatus),
         GitStatus (Inr cleanStatus), StatusBarMessage ''no changes to commit'' 4000,
         Notice ''No changes to commit'', ConsoleLog ''git obsidian message: No changes to commit'',
         GitBranchInfo (Inr trackedBranch), GitCanPush (Inr False),
         StatusBarMessage ''no changes to push'' 4000,
         Notice ''No changes to push'', ConsoleLog ''git obsidian message: No changes to push'',
         SetState PluginState_idle, StatusBarDisplay],
        simplePlugin\<lparr>world := 4, state := Some PluginState_idle\<rparr>)
   \<and> (\<forall>x. GitPull x \<notin> set (eventsOf (createBackup idleEnv True None simplePlugin)))
   \<and> (\<forall>x. GitPush x \<notin> set (eventsOf (createBackup idleEnv True None simplePlugin)))
   \<and> GitPush (Inr 1) \<in> set (eventsOf (createBackup (demoEnv ''valid'' cleanStatus trackedBranch True 1)
                                          True None simplePlugin))
   \<and> GitCanPush (Inr True) \<in> set (eventsOf (createBackup (demoEnv ''valid'' cleanStatus trackedBranch True 1)
                                               True None simplePlugin))"
proof -
  have h1: "createBackup_checks idleEnv True simplePlugin =
     (Inr True, [GitStatus (Inr cleanStatus)], simplePlugin\<lparr>world := 1\<rparr>)"
    by (simp add: createBackup_checks_def ensureReady_def action_defs demo_defs)
  have h2: "createBackup_commit idleEnv None (simplePlugin\<lparr>world := 1\<rparr>) =
       (Inr (),
        [GitStatus (Inr cleanStatus), StatusBarMessage ''no changes to commit'' 4000,
         Notice ''No changes to commit'', ConsoleLog ''git obsidian message: No changes to commit''],
        simplePlugin\<lparr>world := 2\<rparr>)"
    by (simp add: createBackup_commit_def action_defs displayMessage_def demo_defs
          toLowerCase_simps lowerChar_eval)
  have h3: "\<not> disablePush (settings simplePlugin)"
    and h4: "gitManager (simplePlugin\<lparr>world := 2\<rparr>) = Some SimpleGit"
    and g5: "branchInfo idleEnv SimpleGit 2 = (Inr trackedBranch, 3)"
    and h6: "remote trackedBranch = Some ''origin/main''"
    and h7: "canPush idleEnv SimpleGit 3 = (Inr False, 4)"
    and f1: "\<not> isMobile simplePlugin" and f2: "\<not> disablePopups (settings simplePlugin)"
    by (simp_all add: demo_defs)
  have h5: "branchInfo idleEnv SimpleGit (world (simplePlugin\<lparr>world := 2\<rparr>))
               = (Inr trackedBranch, 3)"
    using g5 by simp
  have h6': "''origin/main'' \<noteq> []" by simp
  note main = backup_pushes_only_when_pending[of idleEnv True None simplePlugin,
                THEN conjunct2, rule_format, OF h1 h2 h3 h4 h5 h6 h6' h7]
  have a: "createBackup idleEnv True None simplePlugin =
       (Inr (),
        [GitStatus (Inr cleanStatus),
         GitStatus (Inr cleanStatus), StatusBarMessage ''no changes to commit'' 4000,
         Notice ''No changes to commit'', ConsoleLog ''git obsidian message: No changes to commit'',
         GitBranchInfo (Inr trackedBranch), GitCanPush (Inr False),
         StatusBarMessage ''no changes to push'' 4000,
         Notice ''No changes to push'', ConsoleLog ''git obsidian message: No changes to push'',
         SetState PluginState_idle, StatusBarDisplay],
        simplePlugin\<lparr>world := 4, state := Some PluginState_idle\<rparr>)"
    using main[THEN conjunct1] f1 f2 by simp
  have b: "\<forall>x. GitPull x \<notin> set (eventsOf (createBackup idleEnv True None simplePlugin))"
    and c: "\<forall>x. GitPush x \<notin> set (eventsOf (createBackup idleEnv True None simplePlugin))"
    using main by blast+
  have d: "GitPush (Inr 1) \<in> set (eventsOf (createBackup (demoEnv ''valid'' cleanStatus trackedBranch True 1)
                                          True None simplePlugin))"
    by (simp add: createBackup_def createBackup_checks_def createBackup_commit_def
          createBackup_push_def createBackup_pushBlock_def ensureReady_def action_defs
          displayMessage_def demo_defs truthy_def)
  have e: "GitCanPush (Inr True) \<in> set (eventsOf (createBackup (demoEnv ''valid'' cleanStatus trackedBranch True 1)
                                               True None simplePlugin))"
    using backup_pushes_only_when_pending[of "demoEnv ''valid'' cleanStatus trackedBranch True 1"
            True None simplePlugin, THEN conjunct1] d
    by blast
  show ?thesis
    by (intro conjI) (fact h1 h2 h3 g5 h6 h7 a b c d e)+
qed

text \<open>
  The deletion of the old report on a manual run (lines 167-170). The result of the lookup
  goes to \<open>vault.delete\<close> as it is and the call is awaited with no handler. If the
  deletion resolves, the workflow goes on to the status query; if it rejects, the
  workflow rejects with the same error and no backend call is made. What \<open>vault.delete\<close>
  does when the lookup found nothing is the host's and is not fixed here.
\<close>

lemma manual_backup_continues_when_delete_resolves:
  assumes ready: "ensureReady env p = (Inr (), e0, p1)" and gr: "gitReady p1"
    and gm: "gitManager p1 = Some g"
    and del: "vaultDelete env (getAbstractFileByPath env conflictOutputFile (world p1)) (world p1)
                = (Inr (), w1)"
  shows "GitStatus (fst (status env g w1)) \<in> set (eventsOf (createBackup env False msg p))"
proof -
  have sub: "set (eventsOf (createBackup_checks env False p))
               \<subseteq> set (eventsOf (createBackup env False msg p))"
    unfolding createBackup_def by (rule bindA_events_prefix)
  show ?thesis
  proof (cases g)
    case SimpleGit
    have "GitStatus (fst (status env g w1)) \<in> set (eventsOf (createBackup_checks env False p))"
      using ready gr gm del SimpleGit
      by (simp add: createBackup_checks_def clearConflictFile_def action_defs Let_def
            split: prod.splits sum.splits)
    with sub show ?thesis by blast
  next
    case IsomorphicGit
    have checks: "createBackup_checks env False p =
            (Inr True,
             e0 @ [VaultDelete (getAbstractFileByPath env conflictOutputFile (world p1)) (Inr ())],
             p1\<lparr>world := w1\<rparr>)"
      using ready gr gm del IsomorphicGit
      by (simp add: createBackup_checks_def clearConflictFile_def action_defs Let_def)
    have "GitStatus (fst (status env g w1))
            \<in> set (eventsOf (gitCall (status env) GitStatus (p1\<lparr>world := w1\<rparr>)))"
      using gm by (simp add: gitCall_def split: prod.splits)
    also have "\<dots> \<subseteq> set (eventsOf (createBackup_commit env msg (p1\<lparr>world := w1\<rparr>)))"
      unfolding createBackup_commit_def by (rule bindA_events_prefix)
    also have "\<dots> \<subseteq> set (eventsOf (thenA (createBackup_commit env msg) (createBackup_push env)
                                      (p1\<lparr>world := w1\<rparr>)))"
      unfolding thenA_def by (rule bindA_events_prefix)
    also have "\<dots> \<subseteq> set (eventsOf (createBackup env False msg p))"
      using checks by (auto simp: createBackup_def bindA_def split: prod.splits)
    finally show ?thesis .
  qed
qed

lemma manual_backup_delete_rejected:
  assumes ready: "ensureReady env p = (Inr (), e0, p1)" and gr: "gitReady p1"
    and del: "vaultDelete env (getAbstractFileByPath env conflictOutputFile (world p1)) (world p1)
                = (Inl err, w1)"
  shows "createBackup env False msg p =
           (Inl err,
            e0 @ [VaultDelete (getAbstractFileByPath env conflictOutputFile (world p1)) (Inl err)],
            p1\<lparr>world := w1\<rparr>)"
  using assms
  by (simp add: createBackup_def createBackup_checks_def clearConflictFile_def action_defs Let_def)

end
